theory Spec2Isabelle
  imports Main "HOL-Library.Word"
begin

unbundle bit_operations_syntax

section \<open>The client key exchange of s2n (tls/s2n\_client\_key\_exchange.c)\<close>

text \<open>
  A shallow embedding of \<^verbatim>\<open>src/tls/s2n_client_key_exchange.c\<close>. C integers are
  machine words, structs are records, pointers are values of small datatypes that name
  the objects the file can reach, and every \<^verbatim>\<open>GUARD\<close>, \<^verbatim>\<open>S2N_ERROR_IF\<close> and
  \<^verbatim>\<open>notnull_check\<close> is a branch returning \<open>Inl\<close> of the error. A function takes
  the memory and returns the error or the memory it leaves; an error return carries no
  memory, so what the C code has written before it fails is not part of the model.
\<close>

subsection \<open>Machine types, errors and constants\<close>

type_synonym u8 = "8 word"
type_synonym u16 = "16 word"
type_synonym u32 = "32 word"

text \<open>
  The error codes this file raises itself, the ones its helpers raise, and
  \<open>S2N_ERR_COLLABORATOR\<close> for a failure reported by an external primitive (random
  generator, key operations, PRF, cache, a key exchange sub-method). \<open>NULL_DEREFERENCE\<close>
  is not an s2n error: it marks a path on which the C code reads through a null pointer
  without checking it.
\<close>

datatype s2n_error =
    S2N_ERR_NULL
  | S2N_ERR_SAFETY
  | S2N_ERR_BAD_MESSAGE
  | S2N_ERR_SIZE_MISMATCH
  | S2N_ERR_STUFFER_OUT_OF_DATA
  | S2N_ERR_STUFFER_IS_FULL
  | S2N_ERR_ALLOC
  | S2N_ERR_ASYNC_BLOCKED
  | S2N_ERR_COLLABORATOR nat
  | NULL_DEREFERENCE

text \<open>
  Modelled from the spec: the header constants are not part of the source file. The spec
  fixes the premaster secret at 48 bytes and the two version bytes of TLS 1.2 at
  \<open>{0x03, 0x03}\<close> under the encoding (version / 10, version % 10), so that TLS 1.2 is
  33, and SSLv3 (3.0) and SSLv2 (2.0) are 30 and 20.
\<close>

definition S2N_TLS_SECRET_LEN :: nat where
  "S2N_TLS_SECRET_LEN = 48"

definition S2N_TLS_PROTOCOL_VERSION_LEN :: nat where
  "S2N_TLS_PROTOCOL_VERSION_LEN = 2"

definition S2N_SSLv2 :: u8 where
  "S2N_SSLv2 = 20"

definition S2N_SSLv3 :: u8 where
  "S2N_SSLv3 = 30"

subsection \<open>Pointers and structs\<close>

text \<open>
  \<open>data_ptr\<close> is a \<^verbatim>\<open>uint8_t *\<close>: null, the connection's fixed premaster buffer
  \<^verbatim>\<open>conn->secure.rsa_premaster_secret\<close>, the start of a heap block, or a position
  inside the storage of \<^verbatim>\<open>conn->handshake.io\<close> (what \<^verbatim>\<open>s2n_stuffer_raw_read\<close> and
  \<^verbatim>\<open>s2n_stuffer_raw_write\<close> hand out).
  \<open>blob_ptr\<close> is a \<^verbatim>\<open>struct s2n_blob *\<close>: null, a blob on a caller's stack, or
  \<^verbatim>\<open>&conn->secure.kem_params.shared_secret\<close>.
\<close>

datatype data_ptr = NullPtr | PremasterPtr | HeapPtr nat | IoPtr nat

datatype blob_ptr = NullBlob | LocalBlob nat | KemSharedSecret

record s2n_blob =
  data :: data_ptr
  size_b :: u32
  allocated :: u32

definition blob_zeroed :: s2n_blob where
  "blob_zeroed = \<lparr> data = NullPtr, size_b = 0, allocated = 0 \<rparr>"

text \<open>
  The handshake stuffer: \<open>storage\<close> is the memory of its blob (its length is the
  blob's size), with the two cursors of the C struct.
\<close>

record s2n_stuffer =
  storage :: "u8 list"
  read_cursor :: u32
  write_cursor :: u32
  growable :: bool

text \<open>
  \<^verbatim>\<open>struct s2n_kex\<close>: the key exchange methods, the hybrid one holding its two
  sub-methods \<^verbatim>\<open>hybrid[0]\<close> and \<^verbatim>\<open>hybrid[1]\<close> (null pointers in every other method).
\<close>

datatype s2n_kex = S2N_RSA | S2N_DHE | S2N_ECDHE | S2N_KEM | S2N_HYBRID s2n_kex s2n_kex

fun hybrid :: "s2n_kex \<Rightarrow> nat \<Rightarrow> s2n_kex option" where
  "hybrid (S2N_HYBRID k0 k1) i = (if i = 0 then Some k0 else if i = 1 then Some k1 else None)"
| "hybrid _ i = None"

datatype async_state =
    S2N_ASYNC_NOT_INVOKED
  | S2N_ASYNC_INVOKED_WAITING
  | S2N_ASYNC_INVOKED_COMPLETE

text \<open>
  The fields of \<^verbatim>\<open>struct s2n_connection\<close> the file touches, with the nesting
  (\<^verbatim>\<open>secure.\<close>, \<^verbatim>\<open>handshake.\<close>) flattened; \<open>key_exchange_alg\<close> is
  \<^verbatim>\<open>conn->secure.cipher_suite->key_exchange_alg\<close>. \<open>master_secret\<close>, \<open>key_block\<close> and
  \<open>session_cached\<close> stand for what the PRF, the key expansion and the session cache
  write; \<open>server_public_key_live\<close> is cleared by \<^verbatim>\<open>s2n_pkey_free\<close>.
\<close>

record s2n_connection =
  key_exchange_alg :: s2n_kex
  client_hello_version :: u8
  client_protocol_version :: u8
  actual_protocol_version :: u8
  rsa_premaster_secret :: "u8 list"
  handshake_io :: s2n_stuffer
  rsa_failed :: bool
  handshake_async_state :: async_state
  kem_shared_secret :: s2n_blob
  client_key_exchange_message :: s2n_blob
  master_secret :: "u8 list"
  key_block :: "u8 list"
  session_cached :: bool
  server_public_key_live :: bool

text \<open>
  The memory the file works on: the connection, the blobs on the callers' stacks, and
  the heap. A heap block keeps its last contents when it is released (its flag goes to
  \<open>False\<close>), so that what was in it at the moment of the release can be stated.
\<close>

record mem =
  conn :: s2n_connection
  local_blobs :: "s2n_blob list"
  heap :: "(bool \<times> u8 list) list"

subsection \<open>Reading and writing through pointers\<close>

definition get_blob :: "mem \<Rightarrow> blob_ptr \<Rightarrow> s2n_blob option" where
  "get_blob m p =
     (case p of
        NullBlob \<Rightarrow> None
      | LocalBlob i \<Rightarrow> (if i < length (local_blobs m) then Some (local_blobs m ! i) else None)
      | KemSharedSecret \<Rightarrow> Some (kem_shared_secret (conn m)))"

definition set_blob :: "mem \<Rightarrow> blob_ptr \<Rightarrow> s2n_blob \<Rightarrow> mem" where
  "set_blob m p b =
     (case p of
        NullBlob \<Rightarrow> m
      | LocalBlob i \<Rightarrow> m\<lparr> local_blobs := (local_blobs m)[i := b] \<rparr>
      | KemSharedSecret \<Rightarrow> m\<lparr> conn := (conn m)\<lparr> kem_shared_secret := b \<rparr> \<rparr>)"

text \<open>
  \<open>load m p off n\<close> is the \<open>n\<close> bytes at \<open>p + off\<close>, when they are readable;
  \<open>store m p off ys\<close> writes \<open>ys\<close> there, when that much is writable. A released heap
  block is neither.
\<close>

definition region :: "u8 list \<Rightarrow> nat \<Rightarrow> nat \<Rightarrow> u8 list option" where
  "region xs off n = (if off + n \<le> length xs then Some (take n (drop off xs)) else None)"

definition overwrite :: "u8 list \<Rightarrow> nat \<Rightarrow> u8 list \<Rightarrow> u8 list" where
  "overwrite xs off ys = take off xs @ ys @ drop (off + length ys) xs"

definition load :: "mem \<Rightarrow> data_ptr \<Rightarrow> nat \<Rightarrow> nat \<Rightarrow> u8 list option" where
  "load m p off n =
     (case p of
        NullPtr \<Rightarrow> None
      | PremasterPtr \<Rightarrow> region (rsa_premaster_secret (conn m)) off n
      | HeapPtr a \<Rightarrow>
          (if a < length (heap m) \<and> fst (heap m ! a) then region (snd (heap m ! a)) off n
           else None)
      | IoPtr k \<Rightarrow> region (storage (handshake_io (conn m))) (k + off) n)"

definition store :: "mem \<Rightarrow> data_ptr \<Rightarrow> nat \<Rightarrow> u8 list \<Rightarrow> mem option" where
  "store m p off ys =
     (case load m p off (length ys) of
        None \<Rightarrow> None
      | Some _ \<Rightarrow>
          (case p of
             NullPtr \<Rightarrow> None
           | PremasterPtr \<Rightarrow>
               Some (m\<lparr> conn := (conn m)\<lparr> rsa_premaster_secret :=
                            overwrite (rsa_premaster_secret (conn m)) off ys \<rparr> \<rparr>)
           | HeapPtr a \<Rightarrow>
               Some (m\<lparr> heap := (heap m)[a := (True, overwrite (snd (heap m ! a)) off ys)] \<rparr>)
           | IoPtr k \<Rightarrow>
               Some (m\<lparr> conn := (conn m)\<lparr> handshake_io := (handshake_io (conn m))
                            \<lparr> storage := overwrite (storage (handshake_io (conn m))) (k + off) ys \<rparr> \<rparr> \<rparr>)))"

subsection \<open>\<^verbatim>\<open>get_client_hello_protocol_version\<close> (line 38)\<close>

definition get_client_hello_protocol_version :: "s2n_connection \<Rightarrow> u8" where
  "get_client_hello_protocol_version c =
     (if client_hello_version c = S2N_SSLv2 then client_protocol_version c
      else client_hello_version c)"

text \<open>
  The two assignments \<^verbatim>\<open>v[0] = version / 10; v[1] = version % 10\<close> that lines 125-126,
  154-155 and 249-250 repeat, on \<^verbatim>\<open>uint8_t\<close>.
\<close>

definition version_wire :: "u8 \<Rightarrow> u8 list" where
  "version_wire v = [v div 10, v mod 10]"

subsection \<open>Helpers of the repository that the file calls\<close>

text \<open>
  Modelled from the spec: \<^verbatim>\<open>utils/s2n_safety.h\<close> is not part of the source file. The
  spec's error taxonomy gives a null buffer its own error kind, distinct from the
  safety-invariant one; \<^verbatim>\<open>gte_check\<close> and \<^verbatim>\<open>gt_check\<close> raise the safety-invariant
  error (the spec: a negative captured-message span is a fatal invariant failure).
\<close>

definition notnull_check :: "bool \<Rightarrow> s2n_error + unit" where
  "notnull_check is_null = (if is_null then Inl S2N_ERR_NULL else Inr ())"

definition gte_check :: "u32 \<Rightarrow> u32 \<Rightarrow> s2n_error + unit" where
  "gte_check n low = (if n \<ge> low then Inr () else Inl S2N_ERR_SAFETY)"

definition gt_check :: "u32 \<Rightarrow> u32 \<Rightarrow> s2n_error + unit" where
  "gt_check n low = (if n > low then Inr () else Inl S2N_ERR_SAFETY)"

text \<open>
  Modelled from the spec: \<^verbatim>\<open>memcpy_check(d, s, n)\<close> copies \<open>n\<close> bytes from \<open>s\<close> to
  \<open>d\<close>; a null or unreadable buffer is the null-buffer error.
\<close>

definition memcpy_check :: "mem \<Rightarrow> data_ptr \<Rightarrow> data_ptr \<Rightarrow> nat \<Rightarrow> s2n_error + mem" where
  "memcpy_check m d s n =
     (if n = 0 then Inr m
      else case load m s 0 n of
             None \<Rightarrow> Inl S2N_ERR_NULL
           | Some ys \<Rightarrow> (case store m d 0 ys of None \<Rightarrow> Inl S2N_ERR_NULL | Some m' \<Rightarrow> Inr m'))"

text \<open>
  Modelled from the spec: \<^verbatim>\<open>constant_time_equals(a, b, len) -> bool\<close>, on the first
  \<open>len\<close> bytes of two byte sequences.
\<close>

definition s2n_constant_time_equals :: "u8 list \<Rightarrow> u8 list \<Rightarrow> nat \<Rightarrow> bool" where
  "s2n_constant_time_equals a b len = (take len a = take len b)"

text \<open>
  Modelled from the spec: the stuffer (\<^verbatim>\<open>stuffer/s2n_stuffer.c\<close>) is not part of the
  source file. It is the transcript buffer with independent read and write cursors;
  a raw read or write moves the cursor by the requested length and returns the position
  it had (null when the bytes are not there, or when the space is not and the stuffer
  cannot grow); integers on the wire are big-endian.
\<close>

definition s2n_stuffer_data_available :: "s2n_stuffer \<Rightarrow> u32" where
  "s2n_stuffer_data_available s = write_cursor s - read_cursor s"

definition s2n_stuffer_raw_read :: "s2n_stuffer \<Rightarrow> u32 \<Rightarrow> (data_ptr \<times> s2n_stuffer) option" where
  "s2n_stuffer_raw_read s n =
     (if s2n_stuffer_data_available s < n then None
      else Some (IoPtr (unat (read_cursor s)), s\<lparr> read_cursor := read_cursor s + n \<rparr>))"

definition s2n_stuffer_raw_write :: "s2n_stuffer \<Rightarrow> u32 \<Rightarrow> (data_ptr \<times> s2n_stuffer) option" where
  "s2n_stuffer_raw_write s n =
     (let need = unat (write_cursor s) + unat n in
      if need \<le> length (storage s) then
        Some (IoPtr (unat (write_cursor s)), s\<lparr> write_cursor := write_cursor s + n \<rparr>)
      else if growable s \<and> write_cursor s \<le> write_cursor s + n then
        Some (IoPtr (unat (write_cursor s)),
              s\<lparr> storage := storage s @ replicate (need - length (storage s)) 0,
                 write_cursor := write_cursor s + n \<rparr>)
      else None)"

definition s2n_stuffer_read_uint16 :: "s2n_stuffer \<Rightarrow> s2n_error + (u16 \<times> s2n_stuffer)" where
  "s2n_stuffer_read_uint16 s =
     (case s2n_stuffer_raw_read s 2 of
        None \<Rightarrow> Inl S2N_ERR_STUFFER_OUT_OF_DATA
      | Some (p, s') \<Rightarrow>
          (case region (storage s) (unat (read_cursor s)) 2 of
             Some [hi, lo] \<Rightarrow> Inr (push_bit 8 (ucast hi) OR ucast lo, s')
           | _ \<Rightarrow> Inl S2N_ERR_STUFFER_OUT_OF_DATA))"

definition s2n_stuffer_write_uint16 :: "s2n_stuffer \<Rightarrow> u16 \<Rightarrow> s2n_error + s2n_stuffer" where
  "s2n_stuffer_write_uint16 s v =
     (case s2n_stuffer_raw_write s 2 of
        None \<Rightarrow> Inl S2N_ERR_STUFFER_IS_FULL
      | Some (p, s') \<Rightarrow>
          Inr (s'\<lparr> storage := overwrite (storage s') (unat (write_cursor s))
                                [ucast (drop_bit 8 v), ucast v] \<rparr>))"

text \<open>
  Modelled from the spec: the macro \<^verbatim>\<open>GUARD(x)\<close> is not part of the source file.
  A failure at any step is fatal: return the error of \<open>x\<close>, or go on with its result.
\<close>

definition GUARD :: "'e + 'a \<Rightarrow> ('a \<Rightarrow> 'e + 'b) \<Rightarrow> 'e + 'b" where
  "GUARD r f = (case r of Inl e \<Rightarrow> Inl e | Inr x \<Rightarrow> f x)"

text \<open>
  The external collaborators, which the spec consumes through narrow contracts and which
  are parameters here: the random generator (whether it succeeds, and the bytes it
  yields), whether an asynchronous private-key callback is configured, the private-key
  decryption (from the ciphertext and the present contents of the output buffer to the
  failure flag and the bytes it leaves in the output buffer), the public key's size and
  encryption, the allocator, the PRF, the key expansion, the session cache, the two
  KEM primitives (which work on the connection and the heap), and the dispatch of
  \<^verbatim>\<open>tls/s2n_kex.c\<close> to the receive or send function of a key exchange method (its
  first argument is a \<^verbatim>\<open>const struct s2n_kex *\<close>, \<open>None\<close> when null).
\<close>

record env =
  random_ok :: bool
  entropy :: "nat \<Rightarrow> u8"
  async_pkey_cb :: bool
  pkey_decrypt :: "u8 list \<Rightarrow> u8 list \<Rightarrow> bool \<times> u8 list"
  pkey_size :: "s2n_error + u32"
  pkey_encrypt :: "u8 list \<Rightarrow> nat \<Rightarrow> s2n_error + u8 list"
  alloc_ok :: "nat \<Rightarrow> bool"
  kex_tls_prf :: "s2n_connection \<Rightarrow> u8 list \<Rightarrow> s2n_error + u8 list"
  prf_key_expansion :: "s2n_connection \<Rightarrow> s2n_error + u8 list"
  allowed_to_cache_connection :: "s2n_connection \<Rightarrow> bool"
  store_to_cache :: "s2n_connection \<Rightarrow> s2n_error + unit"
  kem_recv_ciphertext :: "mem \<Rightarrow> s2n_error + mem"
  kem_send_ciphertext :: "mem \<Rightarrow> s2n_error + mem"
  s2n_kex_client_key_recv :: "s2n_kex option \<Rightarrow> mem \<Rightarrow> blob_ptr \<Rightarrow> s2n_error + mem"
  s2n_kex_client_key_send :: "s2n_kex option \<Rightarrow> mem \<Rightarrow> blob_ptr \<Rightarrow> s2n_error + mem"

text \<open>
  Modelled from the spec: \<^verbatim>\<open>random_bytes(dest)\<close> fills the blob it is given, that is
  \<open>size\<close> bytes at \<open>data\<close>, with fresh random bytes.
\<close>

definition random_bytes :: "env \<Rightarrow> nat \<Rightarrow> u8 list" where
  "random_bytes e n = map (entropy e) [0..<n]"

definition s2n_get_private_random_data :: "env \<Rightarrow> mem \<Rightarrow> blob_ptr \<Rightarrow> s2n_error + mem" where
  "s2n_get_private_random_data e m bp =
     (case get_blob m bp of
        None \<Rightarrow> Inl S2N_ERR_NULL
      | Some b \<Rightarrow>
          if \<not> random_ok e then Inl (S2N_ERR_COLLABORATOR 0)
          else (case store m (data b) 0 (random_bytes e (unat (size_b b))) of
                  None \<Rightarrow> Inl S2N_ERR_NULL
                | Some m' \<Rightarrow> Inr m'))"


definition s2n_alloc :: "env \<Rightarrow> mem \<Rightarrow> blob_ptr \<Rightarrow> u32 \<Rightarrow> s2n_error + mem" where
  "s2n_alloc e m bp n =
     (case get_blob m bp of
        None \<Rightarrow> Inl S2N_ERR_NULL
      | Some _ \<Rightarrow>
          if \<not> alloc_ok e (unat n) then Inl S2N_ERR_ALLOC
          else Inr (set_blob (m\<lparr> heap := heap m @ [(True, replicate (unat n) 0)] \<rparr>) bp
                      \<lparr> data = HeapPtr (length (heap m)), size_b = n, allocated = n \<rparr>))"

definition release :: "mem \<Rightarrow> data_ptr \<Rightarrow> mem" where
  "release m p =
     (case p of
        HeapPtr a \<Rightarrow>
          (if a < length (heap m)
           then m\<lparr> heap := (heap m)[a := (False, snd (heap m ! a))] \<rparr>
           else m)
      | _ \<Rightarrow> m)"

definition s2n_free :: "mem \<Rightarrow> blob_ptr \<Rightarrow> s2n_error + mem" where
  "s2n_free m bp =
     (case get_blob m bp of
        None \<Rightarrow> Inl S2N_ERR_NULL
      | Some b \<Rightarrow> Inr (set_blob (release m (data b)) bp blob_zeroed))"

text \<open>
  Modelled from the spec: \<^verbatim>\<open>s2n_kem_free\<close> releases the transient state of the
  post-quantum parameter block, of which the model holds the shared secret.
\<close>

definition s2n_kem_free :: "mem \<Rightarrow> s2n_error + mem" where
  "s2n_kem_free m = s2n_free m KemSharedSecret"

text \<open>
  Modelled from the spec: \<^verbatim>\<open>s2n_stuffer_init\<close> and \<^verbatim>\<open>s2n_stuffer_write\<close> are not
  part of the source file. The first makes a stuffer over a blob in memory (the stuffer
  of line 71, which is not growable); the second appends the bytes of a blob at the
  write cursor, which is how the two secrets are concatenated into the combined buffer.
\<close>

record blob_stuffer =
  blob :: s2n_blob
  bs_write_cursor :: u32

definition s2n_stuffer_init :: "s2n_blob \<Rightarrow> s2n_error + blob_stuffer" where
  "s2n_stuffer_init b = Inr \<lparr> blob = b, bs_write_cursor = 0 \<rparr>"

definition s2n_stuffer_write :: "mem \<Rightarrow> blob_stuffer \<Rightarrow> s2n_blob \<Rightarrow> s2n_error + (mem \<times> blob_stuffer)" where
  "s2n_stuffer_write m st inb =
     (if unat (size_b (blob st)) < unat (bs_write_cursor st) + unat (size_b inb)
      then Inl S2N_ERR_STUFFER_IS_FULL
      else if size_b inb = 0 then Inr (m, st)
      else case load m (data inb) 0 (unat (size_b inb)) of
             None \<Rightarrow> Inl S2N_ERR_NULL
           | Some ys \<Rightarrow>
               (case store m (data (blob st)) (unat (bs_write_cursor st)) ys of
                  None \<Rightarrow> Inl S2N_ERR_NULL
                | Some m' \<Rightarrow>
                    Inr (m', st\<lparr> bs_write_cursor := bs_write_cursor st + size_b inb \<rparr>)))"

text \<open>
  Modelled from the spec: the two macros of \<^verbatim>\<open>tls/s2n_async_pkey.h\<close> are not part of
  the source file. The guard: when an asynchronous private-key operation is pending the
  receive path suspends and returns control; when its result has been applied, the
  re-entered function returns success without running again; otherwise it goes on
  (\<open>None\<close>). The decrypt: \<^verbatim>\<open>async_decrypt_submit(context, ciphertext, dest,
  completion_fn)\<close> completes inline (the decryption writes into \<open>dest\<close> and the
  completion function receives the context, the failure flag and \<open>dest\<close>) or defers.
\<close>

definition S2N_ASYNC_PKEY_GUARD :: "s2n_connection \<Rightarrow> (s2n_error + s2n_connection) option" where
  "S2N_ASYNC_PKEY_GUARD c =
     (case handshake_async_state c of
        S2N_ASYNC_NOT_INVOKED \<Rightarrow> None
      | S2N_ASYNC_INVOKED_WAITING \<Rightarrow> Some (Inl S2N_ERR_ASYNC_BLOCKED)
      | S2N_ASYNC_INVOKED_COMPLETE \<Rightarrow>
          Some (Inr (c\<lparr> handshake_async_state := S2N_ASYNC_NOT_INVOKED \<rparr>)))"

definition S2N_ASYNC_PKEY_DECRYPT ::
  "env \<Rightarrow> mem \<Rightarrow> s2n_blob \<Rightarrow> blob_ptr \<Rightarrow> (mem \<Rightarrow> bool \<Rightarrow> blob_ptr \<Rightarrow> s2n_error + mem)
     \<Rightarrow> s2n_error + mem" where
  "S2N_ASYNC_PKEY_DECRYPT e m encrypted init_decrypted on_complete =
     (if async_pkey_cb e then Inl S2N_ERR_ASYNC_BLOCKED
      else case get_blob m init_decrypted of
             None \<Rightarrow> Inl S2N_ERR_NULL
           | Some d \<Rightarrow>
               (case (load m (data encrypted) 0 (unat (size_b encrypted)),
                      load m (data d) 0 (unat (size_b d))) of
                  (Some ct, Some cur) \<Rightarrow>
                    (let (failed, out) = pkey_decrypt e ct cur in
                     case store m (data d) 0 (take (length cur) out) of
                       None \<Rightarrow> Inl S2N_ERR_NULL
                     | Some m' \<Rightarrow> on_complete m' failed init_decrypted)
                | _ \<Rightarrow> Inl S2N_ERR_NULL))"

subsection \<open>The RSA path, receive side (lines 99-164)\<close>

text \<open>Lines 141-164.\<close>

definition s2n_rsa_client_key_recv_complete :: "mem \<Rightarrow> bool \<Rightarrow> blob_ptr \<Rightarrow> s2n_error + mem" where
  "s2n_rsa_client_key_recv_complete m rsa_failed_arg decrypted =
     (case get_blob m decrypted of
        None \<Rightarrow> Inl NULL_DEREFERENCE
      | Some d \<Rightarrow>
          if unat (size_b d) \<noteq> S2N_TLS_SECRET_LEN then Inl S2N_ERR_SIZE_MISMATCH
          else
            GUARD (if PremasterPtr \<noteq> data d
                   then memcpy_check m PremasterPtr (data d) S2N_TLS_SECRET_LEN
                   else Inr m)
              (\<lambda>m1.
                 let legacy_client_hello_protocol_version =
                       get_client_hello_protocol_version (conn m1);
                     client_hello_protocol_version =
                       version_wire legacy_client_hello_protocol_version;
                     c2 = (conn m1)\<lparr> rsa_failed := rsa_failed_arg \<rparr>;
                     c3 = c2\<lparr> rsa_failed := rsa_failed c2 \<or>
                             \<not> s2n_constant_time_equals client_hello_protocol_version
                                 (rsa_premaster_secret c2) S2N_TLS_PROTOCOL_VERSION_LEN \<rparr>
                 in Inr (m1\<lparr> conn := c3 \<rparr>)))"

text \<open>
  Lines 112-118: the length of the ciphertext, in the \<^verbatim>\<open>uint16_t length\<close> of line 110,
  and the stuffer after reading it.
\<close>

definition rsa_recv_length :: "s2n_connection \<Rightarrow> s2n_error + (u16 \<times> s2n_stuffer)" where
  "rsa_recv_length c =
     GUARD (if actual_protocol_version c = S2N_SSLv3
            then Inr (ucast (s2n_stuffer_data_available (handshake_io c)), handshake_io c)
            else s2n_stuffer_read_uint16 (handshake_io c))
       (\<lambda>(len, in1).
          if (ucast len :: u32) > s2n_stuffer_data_available in1 then Inl S2N_ERR_BAD_MESSAGE
          else Inr (len, in1))"

text \<open>
  Lines 102-136, everything before the decrypt step of line 138. \<open>Inl r\<close>: the function
  returns \<open>r\<close> before reaching it. \<open>Inr (m', encrypted)\<close>: line 138 is reached in memory
  \<open>m'\<close> with the ciphertext blob \<open>encrypted\<close>.
\<close>

definition s2n_rsa_client_key_recv_prepare ::
  "env \<Rightarrow> mem \<Rightarrow> blob_ptr \<Rightarrow> (s2n_error + mem) + (mem \<times> s2n_blob)" where
  "s2n_rsa_client_key_recv_prepare e m shared_key =
     (case get_blob m shared_key of
        None \<Rightarrow> Inl (Inl S2N_ERR_NULL)
      | Some sk \<Rightarrow>
          let m1 = set_blob m shared_key
                     (sk\<lparr> data := PremasterPtr, size_b := of_nat S2N_TLS_SECRET_LEN \<rparr>) in
          (case S2N_ASYNC_PKEY_GUARD (conn m1) of
             Some (Inl err) \<Rightarrow> Inl (Inl err)
           | Some (Inr c) \<Rightarrow> Inl (Inr (m1\<lparr> conn := c \<rparr>))
           | None \<Rightarrow>
               (case rsa_recv_length (conn m1) of
                  Inl err \<Rightarrow> Inl (Inl err)
                | Inr (len, in1) \<Rightarrow>
                    let legacy_client_hello_protocol_version =
                          get_client_hello_protocol_version (conn m1);
                        client_hello_protocol_version =
                          version_wire legacy_client_hello_protocol_version in
                    (case s2n_stuffer_raw_read in1 (ucast len) of
                       None \<Rightarrow> Inl (Inl S2N_ERR_NULL)
                     | Some (p, in2) \<Rightarrow>
                         let encrypted = \<lparr> data = p, size_b = ucast len, allocated = 0 \<rparr>;
                             m2 = m1\<lparr> conn := (conn m1)\<lparr> handshake_io := in2 \<rparr> \<rparr> in
                         (case gt_check (size_b encrypted) 0 of
                            Inl err \<Rightarrow> Inl (Inl err)
                          | Inr _ \<Rightarrow>
                              (case s2n_get_private_random_data e m2 shared_key of
                                 Inl err \<Rightarrow> Inl (Inl err)
                               | Inr m3 \<Rightarrow>
                                   Inr (m3\<lparr> conn := (conn m3)\<lparr> rsa_premaster_secret :=
                                              (rsa_premaster_secret (conn m3))
                                                [0 := client_hello_protocol_version ! 0,
                                                 1 := client_hello_protocol_version ! 1] \<rparr> \<rparr>,
                                        encrypted)))))))"

text \<open>Lines 99-139: the preparation, then the decrypt step.\<close>

definition s2n_rsa_client_key_recv :: "env \<Rightarrow> mem \<Rightarrow> blob_ptr \<Rightarrow> s2n_error + mem" where
  "s2n_rsa_client_key_recv e m shared_key =
     (case s2n_rsa_client_key_recv_prepare e m shared_key of
        Inl r \<Rightarrow> r
      | Inr (m', encrypted) \<Rightarrow>
          S2N_ASYNC_PKEY_DECRYPT e m' encrypted shared_key s2n_rsa_client_key_recv_complete)"

text \<open>
  The bytes a blob denotes: \<open>size\<close> bytes at \<open>data\<close>; an empty blob denotes no bytes,
  whatever its pointer.
\<close>

definition blob_bytes :: "mem \<Rightarrow> s2n_blob \<Rightarrow> u8 list option" where
  "blob_bytes m b = (if size_b b = 0 then Some [] else load m (data b) 0 (unat (size_b b)))"

subsection \<open>The RSA path, send side (lines 245-282)\<close>

definition s2n_rsa_client_key_send :: "env \<Rightarrow> mem \<Rightarrow> blob_ptr \<Rightarrow> s2n_error + mem" where
  "s2n_rsa_client_key_send e m shared_key =
     (let legacy_client_hello_protocol_version = get_client_hello_protocol_version (conn m);
          client_hello_protocol_version = version_wire legacy_client_hello_protocol_version in
      case get_blob m shared_key of
        None \<Rightarrow> Inl NULL_DEREFERENCE
      | Some sk \<Rightarrow>
          let m1 = set_blob m shared_key
                     (sk\<lparr> data := PremasterPtr, size_b := of_nat S2N_TLS_SECRET_LEN \<rparr>) in
          GUARD (s2n_get_private_random_data e m1 shared_key) (\<lambda>m2.
          GUARD (case store m2 PremasterPtr 0
                        (take S2N_TLS_PROTOCOL_VERSION_LEN client_hello_protocol_version) of
                   None \<Rightarrow> Inl S2N_ERR_NULL | Some m3 \<Rightarrow> Inr m3) (\<lambda>m3.
          GUARD (pkey_size e) (\<lambda>encrypted_size.
          if encrypted_size > 0xffff then Inl S2N_ERR_SIZE_MISMATCH
          else
          GUARD (if actual_protocol_version (conn m3) > S2N_SSLv3
                 then s2n_stuffer_write_uint16 (handshake_io (conn m3)) (ucast encrypted_size)
                 else Inr (handshake_io (conn m3))) (\<lambda>io1.
          case s2n_stuffer_raw_write io1 encrypted_size of
            None \<Rightarrow> Inl S2N_ERR_NULL
          | Some (p, io2) \<Rightarrow>
              let encrypted = \<lparr> data = p, size_b = encrypted_size, allocated = 0 \<rparr>;
                  m4 = m3\<lparr> conn := (conn m3)\<lparr> handshake_io := io2 \<rparr> \<rparr> in
              (case get_blob m4 shared_key of
                 None \<Rightarrow> Inl S2N_ERR_NULL
               | Some sk4 \<Rightarrow>
                   (case blob_bytes m4 sk4 of
                      None \<Rightarrow> Inl S2N_ERR_NULL
                    | Some secret \<Rightarrow>
                        GUARD (pkey_encrypt e secret (unat encrypted_size)) (\<lambda>ct.
                        case store m4 (data encrypted) 0 (take (unat encrypted_size) ct) of
                          None \<Rightarrow> Inl S2N_ERR_NULL
                        | Some m5 \<Rightarrow>
                            Inr (m5\<lparr> conn := (conn m5)\<lparr> server_public_key_live := False \<rparr> \<rparr>)))))))))"

subsection \<open>The KEM path (lines 188-206 and 284-302)\<close>

definition s2n_kem_client_key_recv :: "env \<Rightarrow> mem \<Rightarrow> blob_ptr \<Rightarrow> s2n_error + mem" where
  "s2n_kem_client_key_recv e m shared_key =
     GUARD (notnull_check (shared_key = NullBlob)) (\<lambda>_.
     if shared_key \<noteq> KemSharedSecret then Inl S2N_ERR_SAFETY
     else GUARD (kem_recv_ciphertext e m) (\<lambda>m'. Inr m'))"

definition s2n_kem_client_key_send :: "env \<Rightarrow> mem \<Rightarrow> blob_ptr \<Rightarrow> s2n_error + mem" where
  "s2n_kem_client_key_send e m shared_key =
     GUARD (notnull_check (shared_key = NullBlob)) (\<lambda>_.
     if shared_key \<noteq> KemSharedSecret then Inl S2N_ERR_SAFETY
     else GUARD (kem_send_ciphertext e m) (\<lambda>m'. Inr m'))"

subsection \<open>Master-secret finalization (lines 81-97)\<close>

text \<open>
  The PRF reads the connection and the bytes of the shared secret and yields the master
  secret; the key expansion yields the key block; storing to the cache marks the
  session as cached.
\<close>




subsection \<open>The hybrid combiner (lines 45-79, 208-212, 304-308)\<close>

text \<open>
  \<^verbatim>\<open>uint32_t *cursor\<close> is one of the two cursors of \<^verbatim>\<open>conn->handshake.io\<close>; the two
  function pointers are \<open>None\<close> when null. A stuffer action answers \<open>None\<close> or a
  null pointer when it fails.
\<close>

datatype cursor_ptr = ReadCursor | WriteCursor

definition deref_cursor :: "s2n_connection \<Rightarrow> cursor_ptr \<Rightarrow> u32" where
  "deref_cursor c p =
     (case p of ReadCursor \<Rightarrow> read_cursor (handshake_io c)
              | WriteCursor \<Rightarrow> write_cursor (handshake_io c))"

type_synonym s2n_kex_client_key_method = "s2n_kex option \<Rightarrow> mem \<Rightarrow> blob_ptr \<Rightarrow> s2n_error + mem"

type_synonym s2n_stuffer_action = "s2n_stuffer \<Rightarrow> u32 \<Rightarrow> (data_ptr \<times> s2n_stuffer) option"

text \<open>
  Lines 48-68. The local \<^verbatim>\<open>shared_key_0\<close> of line 60 becomes a new blob at the end
  of \<open>local_blobs\<close>, at the index \<open>length (local_blobs m)\<close>.
\<close>

definition hybrid_sub_operations ::
  "mem \<Rightarrow> s2n_kex_client_key_method option \<Rightarrow> cursor_ptr \<Rightarrow> s2n_stuffer_action option
     \<Rightarrow> s2n_error + mem" where
  "hybrid_sub_operations m kex_method cursor stuffer_action =
     (case kex_method of
        None \<Rightarrow> Inl S2N_ERR_NULL
      | Some km \<Rightarrow>
     (case stuffer_action of
        None \<Rightarrow> Inl S2N_ERR_NULL
      | Some sa \<Rightarrow>
          let hybrid_kex_0 = hybrid (key_exchange_alg (conn m)) 0;
              hybrid_kex_1 = hybrid (key_exchange_alg (conn m)) 1 in
          (case sa (handshake_io (conn m)) 0 of
             None \<Rightarrow> Inl S2N_ERR_NULL
           | Some (p, io1) \<Rightarrow>
               if p = NullPtr then Inl S2N_ERR_NULL else
               let m1 = m\<lparr> conn := (conn m)
                           \<lparr> handshake_io := io1,
                             client_key_exchange_message :=
                               (client_key_exchange_message (conn m))\<lparr> data := p \<rparr> \<rparr> \<rparr>;
                   start_cursor = deref_cursor (conn m1) cursor;
                   m2 = m1\<lparr> local_blobs := local_blobs m1 @ [blob_zeroed] \<rparr> in
               GUARD (km hybrid_kex_0 m2 (LocalBlob (length (local_blobs m1)))) (\<lambda>m3.
               GUARD (km hybrid_kex_1 m3 KemSharedSecret) (\<lambda>m4.
               let end_cursor = deref_cursor (conn m4) cursor in
               GUARD (gte_check end_cursor start_cursor) (\<lambda>_.
               Inr (m4\<lparr> conn := (conn m4)\<lparr> client_key_exchange_message :=
                             (client_key_exchange_message (conn m4))
                               \<lparr> size_b := end_cursor - start_cursor \<rparr> \<rparr> \<rparr>)))))))"

text \<open>Lines 70-76, with \<^verbatim>\<open>shared_key_0\<close> the local blob at index \<open>i\<close>.\<close>

definition hybrid_combine :: "env \<Rightarrow> mem \<Rightarrow> blob_ptr \<Rightarrow> nat \<Rightarrow> s2n_error + mem" where
  "hybrid_combine e m combined_shared_key i =
     (case get_blob m (LocalBlob i) of
        None \<Rightarrow> Inl NULL_DEREFERENCE
      | Some shared_key_0 \<Rightarrow>
          GUARD (s2n_alloc e m combined_shared_key
                   (size_b shared_key_0 + size_b (kem_shared_secret (conn m)))) (\<lambda>m5.
          (case (get_blob m5 combined_shared_key, get_blob m5 (LocalBlob i)) of
             (Some cb, Some sk0) \<Rightarrow>
               GUARD (s2n_stuffer_init cb) (\<lambda>stuffer_combiner.
               GUARD (s2n_stuffer_write m5 stuffer_combiner sk0) (\<lambda>(m6, st1).
               GUARD (s2n_stuffer_write m6 st1 (kem_shared_secret (conn m6))) (\<lambda>(m7, st2).
               GUARD (s2n_kem_free m7) (\<lambda>m8.
               Inr m8))))
           | _ \<Rightarrow> Inl NULL_DEREFERENCE)))"

text \<open>
  Modelled from the spec: the macro \<^verbatim>\<open>DEFER_CLEANUP\<close> is not part of the source
  file. The component secret of the classical sub-method is in temporary, auto-released
  storage: when the function returns, \<^verbatim>\<open>s2n_free(&shared_key_0)\<close> runs, its result is
  dropped, and the local is gone.
\<close>

definition hybrid_cleanup :: "mem \<Rightarrow> nat \<Rightarrow> mem" where
  "hybrid_cleanup m i =
     (let m' = (case s2n_free m (LocalBlob i) of Inl _ \<Rightarrow> m | Inr m' \<Rightarrow> m')
      in m'\<lparr> local_blobs := take i (local_blobs m') \<rparr>)"

definition s2n_hybrid_client_action ::
  "env \<Rightarrow> mem \<Rightarrow> blob_ptr \<Rightarrow> s2n_kex_client_key_method option \<Rightarrow> cursor_ptr
     \<Rightarrow> s2n_stuffer_action option \<Rightarrow> s2n_error + mem" where
  "s2n_hybrid_client_action e m combined_shared_key kex_method cursor stuffer_action =
     GUARD (hybrid_sub_operations m kex_method cursor stuffer_action) (\<lambda>m4.
     GUARD (hybrid_combine e m4 combined_shared_key (length (local_blobs m))) (\<lambda>m8.
     Inr (hybrid_cleanup m8 (length (local_blobs m)))))"

definition s2n_hybrid_client_key_recv :: "env \<Rightarrow> mem \<Rightarrow> blob_ptr \<Rightarrow> s2n_error + mem" where
  "s2n_hybrid_client_key_recv e m combined_shared_key =
     s2n_hybrid_client_action e m combined_shared_key (Some (s2n_kex_client_key_recv e))
       ReadCursor (Some s2n_stuffer_raw_read)"

definition s2n_hybrid_client_key_send :: "env \<Rightarrow> mem \<Rightarrow> blob_ptr \<Rightarrow> s2n_error + mem" where
  "s2n_hybrid_client_key_send e m combined_shared_key =
     s2n_hybrid_client_action e m combined_shared_key (Some (s2n_kex_client_key_send e))
       WriteCursor (Some s2n_stuffer_raw_write)"

subsection \<open>Concrete inputs\<close>

text \<open>
  A TLS 1.2 connection whose transcript holds a 2-byte ciphertext behind its length
  prefix, a memory with one caller blob, and collaborators that always succeed: the
  decryption leaves the output buffer as it is and reports success.
\<close>

definition io0 :: s2n_stuffer where
  "io0 = \<lparr> storage = [0, 2, 0xAA, 0xBB], read_cursor = 0, write_cursor = 4, growable = True \<rparr>"

definition conn0 :: s2n_connection where
  "conn0 = \<lparr> key_exchange_alg = S2N_RSA, client_hello_version = 33,
             client_protocol_version = 33, actual_protocol_version = 33,
             rsa_premaster_secret = replicate 48 0, handshake_io = io0, rsa_failed = False,
             handshake_async_state = S2N_ASYNC_NOT_INVOKED, kem_shared_secret = blob_zeroed,
             client_key_exchange_message = blob_zeroed, master_secret = [], key_block = [],
             session_cached = False, server_public_key_live = True \<rparr>"

definition mem0 :: mem where
  "mem0 = \<lparr> conn = conn0, local_blobs = [blob_zeroed], heap = [] \<rparr>"

definition env0 :: env where
  "env0 = \<lparr> random_ok = True, entropy = (\<lambda>i. 7), async_pkey_cb = False,
            pkey_decrypt = (\<lambda>ct cur. (False, cur)), pkey_size = Inr 2,
            pkey_encrypt = (\<lambda>secret n. Inr (replicate n 0x5A)), alloc_ok = (\<lambda>n. True),
            kex_tls_prf = (\<lambda>c premaster. Inr (take 4 premaster)),
            prf_key_expansion = (\<lambda>c. Inr (master_secret c)),
            allowed_to_cache_connection = (\<lambda>c. False), store_to_cache = (\<lambda>c. Inr ()),
            kem_recv_ciphertext = Inr, kem_send_ciphertext = Inr,
            s2n_kex_client_key_recv = (\<lambda>k m p. Inr m),
            s2n_kex_client_key_send = (\<lambda>k m p. Inr m) \<rparr>"

text \<open>
  The same connection after an SSLv2-format client hello: the hello carries version 20,
  and the version the client supports (TLS 1.2) is in \<open>client_protocol_version\<close>.
\<close>

definition mem_sslv2_hello :: mem where
  "mem_sslv2_hello = mem0\<lparr> conn := conn0\<lparr> client_hello_version := S2N_SSLv2 \<rparr> \<rparr>"

text \<open>
  The memory at a deferred completion: the decryption went into a heap block of its own,
  which holds 48 bytes starting with the version bytes of TLS 1.2.
\<close>

definition mem_async_decrypted :: mem where
  "mem_async_decrypted =
     mem0\<lparr> local_blobs := [\<lparr> data = HeapPtr 0, size_b = 48, allocated = 48 \<rparr>],
           heap := [(True, [3, 3] @ replicate 46 9)] \<rparr>"

text \<open>
  Connections for the length of the RSA ciphertext: SSLv3 with four bytes left in the
  message, SSLv3 with 65537 bytes left, SSLv3 with nothing left, and TLS 1.2 with a
  length prefix of 9 before two bytes and with a length prefix of 0.
\<close>

definition conn_sslv3 :: s2n_connection where
  "conn_sslv3 = conn0\<lparr> actual_protocol_version := S2N_SSLv3 \<rparr>"

definition conn_sslv3_long :: s2n_connection where
  "conn_sslv3_long =
     conn0\<lparr> actual_protocol_version := S2N_SSLv3,
            handshake_io := \<lparr> storage = replicate 65537 0, read_cursor = 0,
                              write_cursor = 65537, growable = True \<rparr> \<rparr>"

definition mem_sslv3_empty :: mem where
  "mem_sslv3_empty =
     mem0\<lparr> conn := conn0\<lparr> actual_protocol_version := S2N_SSLv3,
                            handshake_io := io0\<lparr> read_cursor := 4 \<rparr> \<rparr> \<rparr>"

definition conn_bad_length :: s2n_connection where
  "conn_bad_length = conn0\<lparr> handshake_io := io0\<lparr> storage := [0, 9, 0xAA, 0xBB] \<rparr> \<rparr>"

definition mem_zero_prefix :: mem where
  "mem_zero_prefix =
     mem0\<lparr> conn := conn0\<lparr> handshake_io := io0\<lparr> storage := [0, 0, 0xAA, 0xBB] \<rparr> \<rparr> \<rparr>"

definition mem_bad_length :: mem where
  "mem_bad_length = mem0\<lparr> conn := conn_bad_length \<rparr>"

definition mem_sslv3 :: mem where
  "mem_sslv3 = mem0\<lparr> conn := conn_sslv3 \<rparr>"

text \<open>Collaborators whose public key asks for a ciphertext of 65536 bytes.\<close>

definition env_large_key :: env where
  "env_large_key = env0\<lparr> pkey_size := Inr 0x10000 \<rparr>"

subsection \<open>Views of the memory used in the statements\<close>

text \<open>
  What the captured key exchange message depends on: the message blob of the connection
  and the two cursors of the transcript.
\<close>

definition span_view :: "mem \<Rightarrow> s2n_blob \<times> u32 \<times> u32" where
  "span_view m =
     (client_key_exchange_message (conn m),
      read_cursor (handshake_io (conn m)), write_cursor (handshake_io (conn m)))"

text \<open>
  A blob is valid in a memory when it denotes readable bytes and its pointer, when it
  points into the heap, points to a block that has been allocated.
\<close>

definition blob_valid :: "mem \<Rightarrow> s2n_blob \<Rightarrow> bool" where
  "blob_valid m b \<longleftrightarrow>
     blob_bytes m b \<noteq> None \<and>
     (case data b of HeapPtr a \<Rightarrow> a < length (heap m) | _ \<Rightarrow> True)"

text \<open>
  An example key exchange sub-method for the concrete runs: it takes two bytes of the
  transcript (moving the read cursor) and leaves a secret in a fresh heap block that the
  blob it is given owns: 32 bytes for ECDHE, 64 for the KEM. \<open>rewinding_kex_method\<close>
  instead puts the read cursor back to the start of the transcript.
\<close>

definition put_secret :: "mem \<Rightarrow> blob_ptr \<Rightarrow> u8 list \<Rightarrow> mem" where
  "put_secret m p bytes =
     set_blob (m\<lparr> heap := heap m @ [(True, bytes)] \<rparr>) p
       \<lparr> data = HeapPtr (length (heap m)), size_b = of_nat (length bytes),
         allocated = of_nat (length bytes) \<rparr>"

definition advance_read :: "mem \<Rightarrow> u32 \<Rightarrow> mem" where
  "advance_read m n =
     m\<lparr> conn := (conn m)\<lparr> handshake_io := (handshake_io (conn m))
           \<lparr> read_cursor := read_cursor (handshake_io (conn m)) + n \<rparr> \<rparr> \<rparr>"

definition example_kex_method :: "s2n_kex option \<Rightarrow> mem \<Rightarrow> blob_ptr \<Rightarrow> s2n_error + mem" where
  "example_kex_method k m p =
     (case k of
        Some S2N_ECDHE \<Rightarrow> Inr (put_secret (advance_read m 2) p (replicate 32 0xA1))
      | Some S2N_KEM \<Rightarrow> Inr (put_secret (advance_read m 2) p (replicate 64 0xB2))
      | _ \<Rightarrow> Inl (S2N_ERR_COLLABORATOR 1))"

definition rewinding_kex_method :: "s2n_kex option \<Rightarrow> mem \<Rightarrow> blob_ptr \<Rightarrow> s2n_error + mem" where
  "rewinding_kex_method k m p =
     Inr (m\<lparr> conn := (conn m)\<lparr> handshake_io := (handshake_io (conn m))\<lparr> read_cursor := 0 \<rparr> \<rparr> \<rparr>)"

definition env_hybrid :: env where
  "env_hybrid = env0\<lparr> s2n_kex_client_key_recv := example_kex_method,
                       s2n_kex_client_key_send := example_kex_method \<rparr>"

definition mem_hybrid :: mem where
  "mem_hybrid = mem0\<lparr> conn := conn0\<lparr> key_exchange_alg := S2N_HYBRID S2N_ECDHE S2N_KEM \<rparr> \<rparr>"

text \<open>The same memory with two bytes of the transcript already read.\<close>

definition mem_hybrid_read2 :: mem where
  "mem_hybrid_read2 = advance_read mem_hybrid 2"

text \<open>
  The memory after the two sub-operations of a hybrid receive, and of a hybrid send, on
  \<open>mem_hybrid\<close> with the example sub-method.
\<close>

definition mem_hybrid_recv_secrets :: mem where
  "mem_hybrid_recv_secrets =
     (case hybrid_sub_operations mem_hybrid (Some example_kex_method) ReadCursor
             (Some s2n_stuffer_raw_read) of
        Inr m \<Rightarrow> m | Inl _ \<Rightarrow> mem_hybrid)"

definition mem_hybrid_send_secrets :: mem where
  "mem_hybrid_send_secrets =
     (case hybrid_sub_operations mem_hybrid (Some example_kex_method) WriteCursor
             (Some s2n_stuffer_raw_write) of
        Inr m \<Rightarrow> m | Inl _ \<Rightarrow> mem_hybrid)"

subsection \<open>Views for the erasure of the shared secret\<close>







section \<open>Properties\<close>

subsection \<open>Results of guarded sequences\<close>

lemma GUARD_Inr: "GUARD r f = Inr y \<longleftrightarrow> (\<exists>x. r = Inr x \<and> f x = Inr y)"
  by (cases r) (simp_all add: GUARD_def)

lemma case_option_Inr:
  "(case x of None \<Rightarrow> Inl e | Some y \<Rightarrow> f y) = Inr z \<longleftrightarrow> (\<exists>y. x = Some y \<and> f y = Inr z)"
  by (cases x) auto

lemma case_prod_Inr:
  "(case p of (a, b) \<Rightarrow> f a b) = Inr z \<longleftrightarrow> (\<exists>a b. p = (a, b) \<and> f a b = Inr z)"
  by (cases p) auto

lemma if_Inl_Inr:
  "(if c then Inl e else r) = Inr z \<longleftrightarrow> \<not> c \<and> r = Inr z"
  by simp

lemmas Inr_iffs = GUARD_Inr case_option_Inr case_prod_Inr if_Inl_Inr

subsection \<open>Memory\<close>

lemma store_conn_fields:
  "store m p off ys = Some m' \<Longrightarrow>
     client_hello_version (conn m') = client_hello_version (conn m) \<and>
     client_protocol_version (conn m') = client_protocol_version (conn m) \<and>
     actual_protocol_version (conn m') = actual_protocol_version (conn m)"
  by (auto simp: store_def split: option.splits data_ptr.splits)

lemma store_premaster:
  "store m PremasterPtr 0 ys = Some m' \<Longrightarrow>
     rsa_premaster_secret (conn m') = ys @ drop (length ys) (rsa_premaster_secret (conn m)) \<and>
     length ys \<le> length (rsa_premaster_secret (conn m))"
  by (auto simp: store_def load_def region_def overwrite_def split: option.splits if_splits)

lemma store_keeps_premaster:
  "store m p off ys = Some m' \<Longrightarrow> p \<noteq> PremasterPtr \<Longrightarrow>
     rsa_premaster_secret (conn m') = rsa_premaster_secret (conn m)"
  by (auto simp: store_def split: option.splits data_ptr.splits)

lemma set_blob_conn_fields:
  "client_hello_version (conn (set_blob m p b)) = client_hello_version (conn m)"
  "client_protocol_version (conn (set_blob m p b)) = client_protocol_version (conn m)"
  "actual_protocol_version (conn (set_blob m p b)) = actual_protocol_version (conn m)"
  "rsa_premaster_secret (conn (set_blob m p b)) = rsa_premaster_secret (conn m)"
  "handshake_io (conn (set_blob m p b)) = handshake_io (conn m)"
  "handshake_async_state (conn (set_blob m p b)) = handshake_async_state (conn m)"
  by (simp_all add: set_blob_def split: blob_ptr.splits)

lemma get_set_blob:
  "get_blob m p = Some b0 \<Longrightarrow> get_blob (set_blob m p b) p = Some b"
  by (auto simp: get_blob_def set_blob_def split: blob_ptr.splits if_splits)

lemma get_blob_io_update:
  "get_blob (m\<lparr> conn := (conn m)\<lparr> handshake_io := s \<rparr> \<rparr>) p = get_blob m p"
  by (simp add: get_blob_def split: blob_ptr.splits)

lemma version_of_set_blob:
  "get_client_hello_protocol_version (conn (set_blob m p b)) =
   get_client_hello_protocol_version (conn m)"
  by (simp add: get_client_hello_protocol_version_def set_blob_conn_fields)

lemma rsa_recv_length_set_blob:
  "rsa_recv_length (conn (set_blob m p b)) = rsa_recv_length (conn m)"
  by (simp add: rsa_recv_length_def set_blob_conn_fields)

lemma length_random_bytes: "length (random_bytes e n) = n"
  by (simp add: random_bytes_def)

lemma secret_len_word: "unat (word_of_nat S2N_TLS_SECRET_LEN :: u32) = S2N_TLS_SECRET_LEN"
  by (simp add: S2N_TLS_SECRET_LEN_def)

lemma random_data_premaster:
  assumes "get_blob m bp = Some b" and "data b = PremasterPtr"
    and "s2n_get_private_random_data e m bp = Inr m'"
  shows "rsa_premaster_secret (conn m') =
           random_bytes e (unat (size_b b)) @ drop (unat (size_b b)) (rsa_premaster_secret (conn m))"
    and "unat (size_b b) \<le> length (rsa_premaster_secret (conn m))"
  using assms store_premaster [of m "random_bytes e (unat (size_b b))" m']
  by (auto simp: s2n_get_private_random_data_def random_bytes_def split: if_splits option.splits)

lemma random_data_env_independent:
  "s2n_get_private_random_data (e\<lparr> pkey_decrypt := d, async_pkey_cb := a \<rparr>) m bp =
   s2n_get_private_random_data e m bp"
  by (auto simp: s2n_get_private_random_data_def random_bytes_def split: option.splits)

lemma two_bytes_overwritten:
  assumes "2 \<le> length R"
  shows "take (length R) ((R @ D)[0 := a, 1 := b]) = [a, b] @ drop 2 R"
proof -
  obtain r0 r1 R' where R: "R = r0 # r1 # R'"
    using assms by (cases R; cases "tl R") auto
  show ?thesis by (simp add: R)
qed

subsection \<open>The RSA receive path up to the decrypt step\<close>

lemma prepare_reaches_decrypt:
  assumes "s2n_rsa_client_key_recv_prepare e m sk = Inr (m', enc)"
  shows "\<exists>skb len in1 in2 m3.
           get_blob m sk = Some skb \<and>
           handshake_async_state (conn m) = S2N_ASYNC_NOT_INVOKED \<and>
           rsa_recv_length (conn m) = Inr (len, in1) \<and>
           s2n_stuffer_raw_read in1 (ucast len) = Some (data enc, in2) \<and>
           size_b enc = ucast len \<and> len \<noteq> 0 \<and>
           s2n_get_private_random_data e
             ((set_blob m sk (skb\<lparr> data := PremasterPtr, size_b := of_nat S2N_TLS_SECRET_LEN \<rparr>))
                \<lparr> conn := (conn (set_blob m sk (skb\<lparr> data := PremasterPtr, size_b := of_nat S2N_TLS_SECRET_LEN \<rparr>)))\<lparr> handshake_io := in2 \<rparr> \<rparr>) sk = Inr m3 \<and>
           m' = m3\<lparr> conn := (conn m3)\<lparr> rsa_premaster_secret :=
                  (rsa_premaster_secret (conn m3))
                    [0 := version_wire (get_client_hello_protocol_version (conn m)) ! 0,
                     1 := version_wire (get_client_hello_protocol_version (conn m)) ! 1] \<rparr> \<rparr>"
  using assms unfolding s2n_rsa_client_key_recv_prepare_def Let_def
  by (auto simp: set_blob_conn_fields rsa_recv_length_set_blob version_of_set_blob
        S2N_ASYNC_PKEY_GUARD_def gt_check_def word_gt_0
      split: option.splits sum.splits prod.splits async_state.splits if_splits)

lemma prepare_env_independent:
  "s2n_rsa_client_key_recv_prepare (e\<lparr> pkey_decrypt := d, async_pkey_cb := a \<rparr>) m sk =
   s2n_rsa_client_key_recv_prepare e m sk"
  unfolding s2n_rsa_client_key_recv_prepare_def random_data_env_independent by (rule refl)

lemma prepare_premaster:
  assumes "s2n_rsa_client_key_recv_prepare e m sk = Inr (m', enc)"
  shows "take S2N_TLS_SECRET_LEN (rsa_premaster_secret (conn m')) =
           version_wire (get_client_hello_protocol_version (conn m)) @
           drop 2 (random_bytes e S2N_TLS_SECRET_LEN)"
    and "length (rsa_premaster_secret (conn m')) = length (rsa_premaster_secret (conn m))"
proof -
  let ?v = "version_wire (get_client_hello_protocol_version (conn m))"
  from prepare_reaches_decrypt [OF assms] obtain skb in2 m3 where
    sk: "get_blob m sk = Some skb" and
    rnd: "s2n_get_private_random_data e
             ((set_blob m sk (skb\<lparr> data := PremasterPtr, size_b := of_nat S2N_TLS_SECRET_LEN \<rparr>))
                \<lparr> conn := (conn (set_blob m sk (skb\<lparr> data := PremasterPtr, size_b := of_nat S2N_TLS_SECRET_LEN \<rparr>)))\<lparr> handshake_io := in2 \<rparr> \<rparr>) sk = Inr m3" and
    m': "m' = m3\<lparr> conn := (conn m3)\<lparr> rsa_premaster_secret :=
                  (rsa_premaster_secret (conn m3))[0 := ?v ! 0, 1 := ?v ! 1] \<rparr> \<rparr>"
    by blast
  let ?b = "skb\<lparr> data := PremasterPtr, size_b := of_nat S2N_TLS_SECRET_LEN \<rparr>"
  let ?m2 = "(set_blob m sk ?b)\<lparr> conn := (conn (set_blob m sk ?b))\<lparr> handshake_io := in2 \<rparr> \<rparr>"
  have gb: "get_blob ?m2 sk = Some ?b"
    using get_set_blob [OF sk] by (simp add: get_blob_io_update)
  have pm3: "rsa_premaster_secret (conn m3) =
          random_bytes e S2N_TLS_SECRET_LEN @
          drop S2N_TLS_SECRET_LEN (rsa_premaster_secret (conn m))"
    and le: "S2N_TLS_SECRET_LEN \<le> length (rsa_premaster_secret (conn m))"
    using random_data_premaster [OF gb _ rnd] by (simp_all add: secret_len_word set_blob_conn_fields)
  have vw: "[?v ! 0, ?v ! 1] = ?v" by (simp add: version_wire_def)
  have pm': "rsa_premaster_secret (conn m') =
      (random_bytes e S2N_TLS_SECRET_LEN @
       drop S2N_TLS_SECRET_LEN (rsa_premaster_secret (conn m)))[0 := ?v ! 0, 1 := ?v ! 1]"
    unfolding m' by (simp add: pm3)
  have "take (length (random_bytes e S2N_TLS_SECRET_LEN)) (rsa_premaster_secret (conn m')) =
          [?v ! 0, ?v ! 1] @ drop 2 (random_bytes e S2N_TLS_SECRET_LEN)"
    unfolding pm' by (rule two_bytes_overwritten) (simp add: length_random_bytes S2N_TLS_SECRET_LEN_def)
  then show "take S2N_TLS_SECRET_LEN (rsa_premaster_secret (conn m')) =
           ?v @ drop 2 (random_bytes e S2N_TLS_SECRET_LEN)"
    by (simp only: vw length_random_bytes)
  show "length (rsa_premaster_secret (conn m')) = length (rsa_premaster_secret (conn m))"
    unfolding pm' using le by (simp add: length_random_bytes)
qed

text \<open>
  C1. Whenever \<^verbatim>\<open>s2n_rsa_client_key_recv\<close> reaches the decrypt step of line 138, the
  premaster buffer of the connection holds, over its \<open>S2N_TLS_SECRET_LEN\<close> bytes, a
  fresh random value of exactly that width whose first two bytes have been replaced by
  the advertised client version divided by ten and its remainder modulo ten. The
  buffer keeps its size, the decrypt step then runs on that memory, and neither the
  decryption primitive nor the choice between inline and deferred decryption has any
  influence on what has been written.
\<close>

theorem rsa_recv_random_premaster_before_decrypt:
  assumes "s2n_rsa_client_key_recv_prepare e m shared_key = Inr (m', encrypted)"
  shows "take S2N_TLS_SECRET_LEN (rsa_premaster_secret (conn m')) =
           [get_client_hello_protocol_version (conn m) div 10,
            get_client_hello_protocol_version (conn m) mod 10] @
           drop 2 (random_bytes e S2N_TLS_SECRET_LEN)
         \<and> length (random_bytes e S2N_TLS_SECRET_LEN) = S2N_TLS_SECRET_LEN
         \<and> length (rsa_premaster_secret (conn m')) = length (rsa_premaster_secret (conn m))
         \<and> s2n_rsa_client_key_recv e m shared_key =
             S2N_ASYNC_PKEY_DECRYPT e m' encrypted shared_key s2n_rsa_client_key_recv_complete
         \<and> (\<forall>d a. s2n_rsa_client_key_recv_prepare
                     (e\<lparr> pkey_decrypt := d, async_pkey_cb := a \<rparr>) m shared_key =
                   Inr (m', encrypted))"
  using prepare_premaster [OF assms] assms
  by (simp add: version_wire_def length_random_bytes prepare_env_independent
        s2n_rsa_client_key_recv_def)

theorem rsa_recv_random_premaster_before_decrypt_witness:
  "\<exists>m' encrypted.
     s2n_rsa_client_key_recv_prepare env0 mem0 (LocalBlob 0) = Inr (m', encrypted) \<and>
     rsa_premaster_secret (conn m') = [3, 3] @ replicate 46 7"
proof -
  have "\<not> isl (s2n_rsa_client_key_recv_prepare env0 mem0 (LocalBlob 0))"
    by code_simp
  then obtain m' encrypted where
    run: "s2n_rsa_client_key_recv_prepare env0 mem0 (LocalBlob 0) = Inr (m', encrypted)"
    by (cases "s2n_rsa_client_key_recv_prepare env0 mem0 (LocalBlob 0)") auto
  have v: "get_client_hello_protocol_version (conn mem0) = 33"
    by (simp add: get_client_hello_protocol_version_def mem0_def conn0_def S2N_SSLv2_def)
  have r: "drop 2 (random_bytes env0 S2N_TLS_SECRET_LEN) = replicate 46 7"
    by code_simp
  have len: "length (rsa_premaster_secret (conn mem0)) = S2N_TLS_SECRET_LEN"
    by (simp add: mem0_def conn0_def S2N_TLS_SECRET_LEN_def)
  from rsa_recv_random_premaster_before_decrypt [OF run]
  have "take S2N_TLS_SECRET_LEN (rsa_premaster_secret (conn m')) = [3, 3] @ replicate 46 7"
    and "length (rsa_premaster_secret (conn m')) = S2N_TLS_SECRET_LEN"
    by (simp_all add: v r len)
  then have "rsa_premaster_secret (conn m') = [3, 3] @ replicate 46 7"
    by (metis order_refl take_all)
  with run show ?thesis by blast
qed

subsection \<open>The RSA send path\<close>

lemma send_success:
  assumes "s2n_rsa_client_key_send e m sk = Inr m'"
  shows "\<exists>skb m2 m3 n io1 p io2 sk4 secret ct m5.
      get_blob m sk = Some skb \<and>
      s2n_get_private_random_data e
        (set_blob m sk (skb\<lparr> data := PremasterPtr, size_b := of_nat S2N_TLS_SECRET_LEN \<rparr>)) sk = Inr m2 \<and>
      store m2 PremasterPtr 0 (version_wire (get_client_hello_protocol_version (conn m))) = Some m3 \<and>
      pkey_size e = Inr n \<and> n \<le> 0xffff \<and>
      (if actual_protocol_version (conn m3) > S2N_SSLv3
       then s2n_stuffer_write_uint16 (handshake_io (conn m3)) (ucast n)
       else Inr (handshake_io (conn m3))) = Inr io1 \<and>
      s2n_stuffer_raw_write io1 n = Some (p, io2) \<and>
      get_blob (m3\<lparr> conn := (conn m3)\<lparr> handshake_io := io2 \<rparr> \<rparr>) sk = Some sk4 \<and>
      blob_bytes (m3\<lparr> conn := (conn m3)\<lparr> handshake_io := io2 \<rparr> \<rparr>) sk4 = Some secret \<and>
      pkey_encrypt e secret (unat n) = Inr ct \<and>
      store (m3\<lparr> conn := (conn m3)\<lparr> handshake_io := io2 \<rparr> \<rparr>) p 0 (take (unat n) ct) = Some m5 \<and>
      m' = m5\<lparr> conn := (conn m5)\<lparr> server_public_key_live := False \<rparr> \<rparr>"
  using assms unfolding s2n_rsa_client_key_send_def Let_def
  apply (simp add: Inr_iffs version_wire_def S2N_TLS_PROTOCOL_VERSION_LEN_def not_less
           split del: if_split)
  apply (elim exE conjE)
  apply (intro exI conjI)
  apply assumption+
  apply (erule sym)
  done

lemma raw_write_ptr:
  "s2n_stuffer_raw_write s n = Some (p, s') \<Longrightarrow> p = IoPtr (unat (write_cursor s))"
  by (auto simp: s2n_stuffer_raw_write_def Let_def split: if_splits)

lemma send_premaster:
  assumes "s2n_rsa_client_key_send e m sk = Inr m'"
  shows "take S2N_TLS_SECRET_LEN (rsa_premaster_secret (conn m')) =
           version_wire (get_client_hello_protocol_version (conn m)) @
           drop 2 (random_bytes e S2N_TLS_SECRET_LEN)"
proof -
  let ?v = "version_wire (get_client_hello_protocol_version (conn m))"
  let ?R = "random_bytes e S2N_TLS_SECRET_LEN"
  from send_success [OF assms] obtain skb m2 m3 n io1 p io2 ct m5 where
    sk: "get_blob m sk = Some skb" and
    rnd: "s2n_get_private_random_data e
        (set_blob m sk (skb\<lparr> data := PremasterPtr, size_b := of_nat S2N_TLS_SECRET_LEN \<rparr>)) sk = Inr m2" and
    st: "store m2 PremasterPtr 0 ?v = Some m3" and
    rw: "s2n_stuffer_raw_write io1 n = Some (p, io2)" and
    st5: "store (m3\<lparr> conn := (conn m3)\<lparr> handshake_io := io2 \<rparr> \<rparr>) p 0 (take (unat n) ct) = Some m5" and
    m': "m' = m5\<lparr> conn := (conn m5)\<lparr> server_public_key_live := False \<rparr> \<rparr>"
    by blast
  have pm2: "rsa_premaster_secret (conn m2) =
               ?R @ drop S2N_TLS_SECRET_LEN (rsa_premaster_secret (conn m))"
    using random_data_premaster(1) [OF get_set_blob [OF sk] _ rnd]
    by (simp add: secret_len_word set_blob_conn_fields)
  have pm3: "rsa_premaster_secret (conn m3) = ?v @ drop 2 (rsa_premaster_secret (conn m2))"
    using store_premaster [OF st] by (simp add: version_wire_def numeral_2_eq_2)
  have "p \<noteq> PremasterPtr" using raw_write_ptr [OF rw] by simp
  from store_keeps_premaster [OF st5 this]
  have "rsa_premaster_secret (conn m') = ?v @ drop 2 (rsa_premaster_secret (conn m2))"
    by (simp add: m' pm3)
  then show ?thesis
    by (simp add: pm2 length_random_bytes version_wire_def S2N_TLS_SECRET_LEN_def)
qed

text \<open>
  C9. The advertised version that forms the two version bytes of the premaster secret is
  the client hello version, except after an SSLv2 client hello, where it is the client's
  protocol version: that is what the macro of line 38 computes, and both the RSA
  receive path (at the decrypt step) and the RSA send path (on return) leave in the first
  two premaster bytes that version divided by ten and its remainder modulo ten.
\<close>

theorem advertised_version_hello_unless_sslv2:
  "get_client_hello_protocol_version c =
     (if client_hello_version c = S2N_SSLv2 then client_protocol_version c
      else client_hello_version c)
   \<and> (s2n_rsa_client_key_recv_prepare e m sk = Inr (m', enc) \<longrightarrow>
        take 2 (rsa_premaster_secret (conn m')) =
          (let v = (if client_hello_version (conn m) = S2N_SSLv2
                    then client_protocol_version (conn m) else client_hello_version (conn m))
           in [v div 10, v mod 10]))
   \<and> (s2n_rsa_client_key_send e2 m2 sk2 = Inr m2' \<longrightarrow>
        take 2 (rsa_premaster_secret (conn m2')) =
          (let v = (if client_hello_version (conn m2) = S2N_SSLv2
                    then client_protocol_version (conn m2) else client_hello_version (conn m2))
           in [v div 10, v mod 10]))"
proof (intro conjI impI)
  show "get_client_hello_protocol_version c =
     (if client_hello_version c = S2N_SSLv2 then client_protocol_version c
      else client_hello_version c)"
    by (simp add: get_client_hello_protocol_version_def)
next
  assume "s2n_rsa_client_key_recv_prepare e m sk = Inr (m', enc)"
  from prepare_premaster(1) [OF this]
  have "take 2 (take S2N_TLS_SECRET_LEN (rsa_premaster_secret (conn m'))) =
          version_wire (get_client_hello_protocol_version (conn m))"
    by (simp add: version_wire_def)
  then show "take 2 (rsa_premaster_secret (conn m')) =
          (let v = (if client_hello_version (conn m) = S2N_SSLv2
                    then client_protocol_version (conn m) else client_hello_version (conn m))
           in [v div 10, v mod 10])"
    by (simp add: S2N_TLS_SECRET_LEN_def version_wire_def get_client_hello_protocol_version_def
          Let_def)
next
  assume "s2n_rsa_client_key_send e2 m2 sk2 = Inr m2'"
  from send_premaster [OF this]
  have "take 2 (take S2N_TLS_SECRET_LEN (rsa_premaster_secret (conn m2'))) =
          version_wire (get_client_hello_protocol_version (conn m2))"
    by (simp add: version_wire_def)
  then show "take 2 (rsa_premaster_secret (conn m2')) =
          (let v = (if client_hello_version (conn m2) = S2N_SSLv2
                    then client_protocol_version (conn m2) else client_hello_version (conn m2))
           in [v div 10, v mod 10])"
    by (simp add: S2N_TLS_SECRET_LEN_def version_wire_def get_client_hello_protocol_version_def
          Let_def)
qed

theorem advertised_version_hello_unless_sslv2_witness:
  "client_hello_version (conn mem_sslv2_hello) = S2N_SSLv2 \<and>
   get_client_hello_protocol_version (conn mem_sslv2_hello) = 33 \<and>
   (\<exists>m' enc. s2n_rsa_client_key_recv_prepare env0 mem_sslv2_hello (LocalBlob 0) = Inr (m', enc) \<and>
      take 2 (rsa_premaster_secret (conn m')) = [3, 3]) \<and>
   (\<exists>m'. s2n_rsa_client_key_send env0 mem_sslv2_hello (LocalBlob 0) = Inr m' \<and>
      take 2 (rsa_premaster_secret (conn m')) = [3, 3])"
proof -
  have "\<not> isl (s2n_rsa_client_key_recv_prepare env0 mem_sslv2_hello (LocalBlob 0))"
    by code_simp
  then obtain m' enc where
    recv: "s2n_rsa_client_key_recv_prepare env0 mem_sslv2_hello (LocalBlob 0) = Inr (m', enc)"
    by (cases "s2n_rsa_client_key_recv_prepare env0 mem_sslv2_hello (LocalBlob 0)") auto
  have "\<not> isl (s2n_rsa_client_key_send env0 mem_sslv2_hello (LocalBlob 0))"
    by code_simp
  then obtain m2' where
    send: "s2n_rsa_client_key_send env0 mem_sslv2_hello (LocalBlob 0) = Inr m2'"
    by (cases "s2n_rsa_client_key_send env0 mem_sslv2_hello (LocalBlob 0)") auto
  have c: "client_hello_version (conn mem_sslv2_hello) = S2N_SSLv2"
    "client_protocol_version (conn mem_sslv2_hello) = 33"
    by (simp_all add: mem_sslv2_hello_def mem0_def conn0_def)
  from advertised_version_hello_unless_sslv2
         [of "conn mem_sslv2_hello" env0 mem_sslv2_hello "LocalBlob 0" m' enc
             env0 mem_sslv2_hello "LocalBlob 0" m2'] recv send
  show ?thesis by (simp add: c)
qed

subsection \<open>The completion of the RSA decryption\<close>

lemma load_premaster_all:
  "length (rsa_premaster_secret (conn m)) = n \<Longrightarrow>
   load m PremasterPtr 0 n = Some (rsa_premaster_secret (conn m))"
  by (simp add: load_def region_def)

lemma load_length: "load m p off n = Some ys \<Longrightarrow> length ys = n"
  by (auto simp: load_def region_def split: data_ptr.splits if_splits)

lemma store_premaster_all:
  "length (rsa_premaster_secret (conn m)) = length ys \<Longrightarrow>
   store m PremasterPtr 0 ys =
     Some (m\<lparr> conn := (conn m)\<lparr> rsa_premaster_secret := ys \<rparr> \<rparr>)"
  by (simp add: store_def load_def region_def overwrite_def)

lemma recv_complete_copy:
  assumes "get_blob m decrypted = Some d"
    and "unat (size_b d) = S2N_TLS_SECRET_LEN"
    and "load m (data d) 0 S2N_TLS_SECRET_LEN = Some P"
    and "length (rsa_premaster_secret (conn m)) = S2N_TLS_SECRET_LEN"
  shows "s2n_rsa_client_key_recv_complete m f decrypted =
           Inr (m\<lparr> conn := (conn m)\<lparr> rsa_premaster_secret := P,
                  rsa_failed := (f \<or>
                     [get_client_hello_protocol_version (conn m) div 10,
                      get_client_hello_protocol_version (conn m) mod 10] \<noteq> take 2 P) \<rparr> \<rparr>)"
proof (cases "data d = PremasterPtr")
  case True
  with assms(3,4) have P: "P = rsa_premaster_secret (conn m)"
    by (simp add: load_premaster_all)
  show ?thesis using assms(1,2) True
    by (auto simp: s2n_rsa_client_key_recv_complete_def GUARD_def P Let_def
          s2n_constant_time_equals_def version_wire_def S2N_TLS_PROTOCOL_VERSION_LEN_def)
next
  case False
  have lenP: "length P = S2N_TLS_SECRET_LEN" using load_length [OF assms(3)] .
  have cp: "memcpy_check m PremasterPtr (data d) S2N_TLS_SECRET_LEN =
              Inr (m\<lparr> conn := (conn m)\<lparr> rsa_premaster_secret := P \<rparr> \<rparr>)"
    using assms(3) store_premaster_all [of m P] assms(4) lenP
    by (simp add: memcpy_check_def S2N_TLS_SECRET_LEN_def)
  show ?thesis using assms(1,2) False
    by (auto simp: s2n_rsa_client_key_recv_complete_def GUARD_def cp Let_def
          s2n_constant_time_equals_def version_wire_def S2N_TLS_PROTOCOL_VERSION_LEN_def
          get_client_hello_protocol_version_def)
qed

text \<open>
  C2. For a decrypted blob that denotes readable bytes, and the premaster buffer at its
  declared size, \<^verbatim>\<open>s2n_rsa_client_key_recv_complete\<close> returns an error if and only
  if the size of the decrypted blob differs from \<open>S2N_TLS_SECRET_LEN\<close>, and the error
  is then the size mismatch. For the right size it returns success; the memory it
  returns differs from the one it was given only in the premaster buffer, which holds
  the decrypted bytes, and in the flag \<open>rsa_failed\<close>, which is set exactly when the
  decryption reported failure or the first two premaster bytes differ from the expected
  version bytes.
\<close>

theorem rsa_recv_complete_error_iff_size_mismatch:
  assumes "get_blob m decrypted = Some d"
    and "load m (data d) 0 (unat (size_b d)) = Some P"
    and "length (rsa_premaster_secret (conn m)) = S2N_TLS_SECRET_LEN"
  shows "(isl (s2n_rsa_client_key_recv_complete m rsa_failed_arg decrypted) \<longleftrightarrow>
            unat (size_b d) \<noteq> S2N_TLS_SECRET_LEN)
       \<and> (unat (size_b d) \<noteq> S2N_TLS_SECRET_LEN \<longrightarrow>
            s2n_rsa_client_key_recv_complete m rsa_failed_arg decrypted =
              Inl S2N_ERR_SIZE_MISMATCH)
       \<and> (unat (size_b d) = S2N_TLS_SECRET_LEN \<longrightarrow>
            s2n_rsa_client_key_recv_complete m rsa_failed_arg decrypted =
              Inr (m\<lparr> conn := (conn m)\<lparr> rsa_premaster_secret := P,
                     rsa_failed := (rsa_failed_arg \<or>
                       [get_client_hello_protocol_version (conn m) div 10,
                        get_client_hello_protocol_version (conn m) mod 10] \<noteq> take 2 P) \<rparr> \<rparr>))"
proof (cases "unat (size_b d) = S2N_TLS_SECRET_LEN")
  case True
  with recv_complete_copy [OF assms(1) True _ assms(3), of P rsa_failed_arg] assms(2)
  show ?thesis by simp
next
  case False
  with assms(1) show ?thesis by (simp add: s2n_rsa_client_key_recv_complete_def)
qed

theorem rsa_recv_complete_error_iff_size_mismatch_witness:
  "s2n_rsa_client_key_recv_complete mem_async_decrypted False (LocalBlob 0) =
     Inr (mem_async_decrypted\<lparr> conn := (conn mem_async_decrypted)
            \<lparr> rsa_premaster_secret := [3, 3] @ replicate 46 9, rsa_failed := False \<rparr> \<rparr>)"
proof -
  have g: "get_blob mem_async_decrypted (LocalBlob 0) =
             Some \<lparr> data = HeapPtr 0, size_b = 48, allocated = 48 \<rparr>"
    by (simp add: get_blob_def mem_async_decrypted_def)
  have l: "load mem_async_decrypted (data \<lparr> data = HeapPtr 0, size_b = 48, allocated = 48 \<rparr>) 0
             (unat (size_b \<lparr> data = HeapPtr 0, size_b = 48 :: u32, allocated = 48 \<rparr>)) =
           Some ([3, 3] @ replicate 46 9)"
    by (simp add: load_def region_def mem_async_decrypted_def)
  have a: "length (rsa_premaster_secret (conn mem_async_decrypted)) = S2N_TLS_SECRET_LEN"
    by (simp add: mem_async_decrypted_def mem0_def conn0_def S2N_TLS_SECRET_LEN_def)
  have v: "get_client_hello_protocol_version (conn mem_async_decrypted) = 33"
    by (simp add: get_client_hello_protocol_version_def mem_async_decrypted_def mem0_def
          conn0_def S2N_SSLv2_def)
  from rsa_recv_complete_error_iff_size_mismatch [OF g l a, of False]
  show ?thesis by (simp add: v S2N_TLS_SECRET_LEN_def)
qed

subsection \<open>The KEM path\<close>

lemma GUARD_return: "GUARD r (\<lambda>x. Inr x) = r"
  by (cases r) (simp_all add: GUARD_def)

text \<open>
  C4, as stated, fails for a null \<open>shared_key\<close>: it is not a pointer to the
  connection's \<open>kem_params.shared_secret\<close>, and the \<^verbatim>\<open>notnull_check\<close> of lines 200
  and 296 answers with the null-pointer error before the aliasing check is reached.
\<close>

theorem kem_null_shared_key_counterexample:
  "NullBlob \<noteq> KemSharedSecret \<and>
   s2n_kem_client_key_recv env0 mem0 NullBlob = Inl S2N_ERR_NULL \<and>
   s2n_kem_client_key_recv env0 mem0 NullBlob \<noteq> Inl S2N_ERR_SAFETY \<and>
   s2n_kem_client_key_send env0 mem0 NullBlob = Inl S2N_ERR_NULL \<and>
   s2n_kem_client_key_send env0 mem0 NullBlob \<noteq> Inl S2N_ERR_SAFETY"
  by (simp add: s2n_kem_client_key_recv_def s2n_kem_client_key_send_def notnull_check_def
        GUARD_def)

text \<open>
  C4, amended. \<^verbatim>\<open>s2n_kem_client_key_recv\<close> and \<^verbatim>\<open>s2n_kem_client_key_send\<close> fail
  whenever \<open>shared_key\<close> is not a pointer to the connection's own
  \<open>kem_params.shared_secret\<close>: with the null-pointer error when it is null, with the
  safety error \<open>S2N_ERR_SAFETY\<close> for every other pointer; only when it is that
  pointer do they proceed to the KEM primitive, whose result they return.
\<close>

theorem kem_requires_aliased_shared_key:
  "(shared_key = NullBlob \<longrightarrow>
      s2n_kem_client_key_recv e m shared_key = Inl S2N_ERR_NULL \<and>
      s2n_kem_client_key_send e m shared_key = Inl S2N_ERR_NULL)
   \<and> (shared_key \<noteq> NullBlob \<and> shared_key \<noteq> KemSharedSecret \<longrightarrow>
      s2n_kem_client_key_recv e m shared_key = Inl S2N_ERR_SAFETY \<and>
      s2n_kem_client_key_send e m shared_key = Inl S2N_ERR_SAFETY)
   \<and> (shared_key = KemSharedSecret \<longrightarrow>
      s2n_kem_client_key_recv e m shared_key = kem_recv_ciphertext e m \<and>
      s2n_kem_client_key_send e m shared_key = kem_send_ciphertext e m)"
  by (simp add: s2n_kem_client_key_recv_def s2n_kem_client_key_send_def notnull_check_def
        GUARD_return) (simp add: GUARD_def)

theorem kem_requires_aliased_shared_key_witness:
  "s2n_kem_client_key_recv env0 mem0 NullBlob = Inl S2N_ERR_NULL \<and>
   s2n_kem_client_key_send env0 mem0 NullBlob = Inl S2N_ERR_NULL \<and>
   s2n_kem_client_key_recv env0 mem0 (LocalBlob 0) = Inl S2N_ERR_SAFETY \<and>
   s2n_kem_client_key_send env0 mem0 (LocalBlob 0) = Inl S2N_ERR_SAFETY \<and>
   s2n_kem_client_key_recv env0 mem0 KemSharedSecret = Inr mem0 \<and>
   s2n_kem_client_key_send env0 mem0 KemSharedSecret = Inr mem0"
  using kem_requires_aliased_shared_key [of NullBlob env0 mem0]
    kem_requires_aliased_shared_key [of "LocalBlob 0" env0 mem0]
    kem_requires_aliased_shared_key [of KemSharedSecret env0 mem0]
  by (simp add: env0_def)

subsection \<open>The length of the RSA ciphertext\<close>

lemma unat_u8_lt: "unat (x :: u8) < 256"
  using unsigned_less [of x, where 'a = nat] by simp

lemma unat_ucast_u8_u16: "unat (ucast (x :: u8) :: u16) = unat x"
  using unat_u8_lt [of x] by (simp add: unsigned_ucast_eq take_bit_nat_eq_self)

lemma unat_push8_u16: "unat (push_bit 8 (ucast (hi :: u8)) :: u16) = 256 * unat hi"
proof -
  have "unat (ucast hi * 256 :: u16) = (unat (ucast hi :: u16) * unat (256 :: u16)) mod 2 ^ 16"
    by (simp add: unat_word_ariths)
  also have "\<dots> = 256 * unat hi"
    using unat_u8_lt [of hi] by (simp add: unat_ucast_u8_u16)
  finally show ?thesis by (simp add: push_bit_eq_mult)
qed

lemma be16_disjoint: "(push_bit 8 (ucast hi) :: u16) AND ucast lo = 0"
  for hi lo :: u8
  by (rule bit_eqI) (auto simp: bit_simps dest: bit_imp_le_length)

lemma be16: "unat (push_bit 8 (ucast hi) OR ucast lo :: u16) = 256 * unat hi + unat lo"
  for hi lo :: u8
proof -
  have "(push_bit 8 (ucast hi) OR ucast lo :: u16) = push_bit 8 (ucast hi) + ucast lo"
    by (rule disjunctive_add_eq_or [symmetric]) (rule be16_disjoint)
  moreover have "256 * unat hi + unat lo < 2 ^ 16"
    using unat_u8_lt [of hi] unat_u8_lt [of lo] by simp
  ultimately show ?thesis
    by (simp add: unat_word_ariths unat_push8_u16 unat_ucast_u8_u16)
qed


text \<open>
  C5, as stated, fails on an SSLv3 connection with 65537 bytes left in the transcript:
  the \<^verbatim>\<open>uint16_t length\<close> of line 110 receives 1, not all the bytes remaining.
\<close>

theorem rsa_recv_sslv3_length_truncated_counterexample:
  "actual_protocol_version conn_sslv3_long = S2N_SSLv3 \<and>
   unat (s2n_stuffer_data_available (handshake_io conn_sslv3_long)) = 65537 \<and>
   rsa_recv_length conn_sslv3_long = Inr (1, handshake_io conn_sslv3_long)"
  by (simp add: conn_sslv3_long_def conn0_def rsa_recv_length_def GUARD_def
        s2n_stuffer_data_available_def)

lemma unat_ucast_u16_u32: "unat (ucast (x :: u16) :: u32) = unat x"
proof -
  have "unat x < 2 ^ 32"
    using unsigned_less [of x, where 'a = nat] by simp
  then show ?thesis by (simp add: unsigned_ucast_eq take_bit_nat_eq_self)
qed

lemma ucast_u32_u16_small:
  "(x :: u32) \<le> 0xffff \<Longrightarrow> unat (ucast x :: u16) = unat x"
  by (simp add: unsigned_ucast_eq take_bit_nat_eq_self word_le_nat_alt)

lemma ucast_u16_u32_le:
  "(ucast (ucast (x :: u32) :: u16) :: u32) \<le> x"
proof -
  have "unat (ucast (ucast x :: u16) :: u32) = unat (ucast x :: u16)"
    by (rule unat_ucast_u16_u32)
  also have "\<dots> = take_bit 16 (unat x)"
    by (simp only: unsigned_ucast_eq) simp
  also have "\<dots> \<le> unat x"
    by (rule take_bit_nat_less_eq_self)
  finally show ?thesis by (simp only: word_le_nat_alt)
qed

lemma rsa_recv_length_sslv3:
  assumes "actual_protocol_version c = S2N_SSLv3"
  shows "rsa_recv_length c =
           Inr (ucast (s2n_stuffer_data_available (handshake_io c)), handshake_io c)"
  using assms ucast_u16_u32_le [of "s2n_stuffer_data_available (handshake_io c)"]
  by (simp add: rsa_recv_length_def GUARD_def not_less)

lemma rsa_recv_length_prefixed:
  assumes "actual_protocol_version c \<noteq> S2N_SSLv3"
  shows "rsa_recv_length c =
           (case s2n_stuffer_read_uint16 (handshake_io c) of
              Inl err \<Rightarrow> Inl err
            | Inr (len, in1) \<Rightarrow>
                if unat len > unat (s2n_stuffer_data_available in1) then Inl S2N_ERR_BAD_MESSAGE
                else Inr (len, in1))"
  using assms
  by (auto simp: rsa_recv_length_def GUARD_def word_less_nat_alt unat_ucast_u16_u32
      split: sum.splits)

lemma recv_fails_on_length_error:
  assumes "get_blob m sk = Some skb"
    and "handshake_async_state (conn m) = S2N_ASYNC_NOT_INVOKED"
    and "rsa_recv_length (conn m) = Inl err"
  shows "s2n_rsa_client_key_recv e m sk = Inl err"
  using assms
  by (simp add: s2n_rsa_client_key_recv_def s2n_rsa_client_key_recv_prepare_def Let_def
        S2N_ASYNC_PKEY_GUARD_def set_blob_conn_fields rsa_recv_length_set_blob)

text \<open>
  C5, amended. In \<^verbatim>\<open>s2n_rsa_client_key_recv\<close>, when the negotiated version is SSLv3
  and at most 65535 bytes remain in the transcript, the ciphertext length is all the
  bytes remaining and nothing is read. For every other version the two bytes at the
  read cursor are read as a big-endian length \<open>256 * hi + lo\<close>; when that length exceeds
  the bytes available after the prefix the result is the bad-message error, otherwise
  it is the length. A bad-message error of the length step is the error that
  \<^verbatim>\<open>s2n_rsa_client_key_recv\<close> returns.
\<close>

theorem rsa_recv_ciphertext_length:
  "(actual_protocol_version c = S2N_SSLv3 \<and>
      s2n_stuffer_data_available (handshake_io c) \<le> 0xffff \<longrightarrow>
      (\<exists>len. rsa_recv_length c = Inr (len, handshake_io c) \<and>
             unat len = unat (s2n_stuffer_data_available (handshake_io c))))
   \<and> (actual_protocol_version c \<noteq> S2N_SSLv3 \<and>
        2 \<le> s2n_stuffer_data_available (handshake_io c) \<and>
        region (storage (handshake_io c)) (unat (read_cursor (handshake_io c))) 2 =
          Some [hi, lo] \<longrightarrow>
        rsa_recv_length c =
          (if 256 * unat hi + unat lo >
                unat (s2n_stuffer_data_available
                       ((handshake_io c)\<lparr> read_cursor := read_cursor (handshake_io c) + 2 \<rparr>))
           then Inl S2N_ERR_BAD_MESSAGE
           else Inr (push_bit 8 (ucast hi) OR ucast lo,
                     (handshake_io c)\<lparr> read_cursor := read_cursor (handshake_io c) + 2 \<rparr>)))
   \<and> (get_blob m shared_key \<noteq> None \<and>
        handshake_async_state (conn m) = S2N_ASYNC_NOT_INVOKED \<and>
        rsa_recv_length (conn m) = Inl S2N_ERR_BAD_MESSAGE \<longrightarrow>
        s2n_rsa_client_key_recv e m shared_key = Inl S2N_ERR_BAD_MESSAGE)"
proof (intro conjI impI; (elim conjE)?)
  assume "actual_protocol_version c = S2N_SSLv3"
    and "s2n_stuffer_data_available (handshake_io c) \<le> 0xffff"
  then show "\<exists>len. rsa_recv_length c = Inr (len, handshake_io c) \<and>
             unat len = unat (s2n_stuffer_data_available (handshake_io c))"
    by (simp add: rsa_recv_length_sslv3 ucast_u32_u16_small)
next
  let ?in1 = "(handshake_io c)\<lparr> read_cursor := read_cursor (handshake_io c) + 2 \<rparr>"
  assume v: "actual_protocol_version c \<noteq> S2N_SSLv3"
    and a: "2 \<le> s2n_stuffer_data_available (handshake_io c)"
    and r: "region (storage (handshake_io c)) (unat (read_cursor (handshake_io c))) 2 =
          Some [hi, lo]"
  have "s2n_stuffer_read_uint16 (handshake_io c) = Inr (push_bit 8 (ucast hi) OR ucast lo, ?in1)"
    using a r by (simp add: s2n_stuffer_read_uint16_def s2n_stuffer_raw_read_def not_less)
  then show "rsa_recv_length c =
          (if 256 * unat hi + unat lo > unat (s2n_stuffer_data_available ?in1)
           then Inl S2N_ERR_BAD_MESSAGE
           else Inr (push_bit 8 (ucast hi) OR ucast lo, ?in1))"
    by (simp add: rsa_recv_length_prefixed [OF v] be16)
next
  assume "get_blob m shared_key \<noteq> None"
    and "handshake_async_state (conn m) = S2N_ASYNC_NOT_INVOKED"
    and "rsa_recv_length (conn m) = Inl S2N_ERR_BAD_MESSAGE"
  then show "s2n_rsa_client_key_recv e m shared_key = Inl S2N_ERR_BAD_MESSAGE"
    by (auto intro: recv_fails_on_length_error)
qed


theorem rsa_recv_ciphertext_length_witness:
  "(\<exists>len. rsa_recv_length conn_sslv3 = Inr (len, handshake_io conn_sslv3) \<and> unat len = 4) \<and>
   rsa_recv_length conn0 = Inr (2, io0\<lparr> read_cursor := 2 \<rparr>) \<and>
   rsa_recv_length conn_bad_length = Inl S2N_ERR_BAD_MESSAGE \<and>
   s2n_rsa_client_key_recv env0 mem_bad_length (LocalBlob 0) = Inl S2N_ERR_BAD_MESSAGE"
  using rsa_recv_ciphertext_length [where c = conn_sslv3]
    rsa_recv_ciphertext_length [where c = conn0 and hi = 0 and lo = 2]
    rsa_recv_ciphertext_length [where c = conn_bad_length and hi = 0 and lo = 9
      and m = mem_bad_length and shared_key = "LocalBlob 0" and e = env0]
  by (simp add: conn_sslv3_def conn0_def conn_bad_length_def mem_bad_length_def mem0_def io0_def
        S2N_SSLv3_def s2n_stuffer_data_available_def region_def get_blob_def)

text \<open>
  C10. Whenever the ciphertext length that \<^verbatim>\<open>s2n_rsa_client_key_recv\<close> computes is 0,
  from a length prefix of 0 or from an SSLv3 message with nothing left, the function
  fails with the safety error of the \<^verbatim>\<open>gt_check\<close> of line 131, and it fails before
  the decrypt step: the part of the function before line 138 already returns the error.
\<close>

theorem rsa_recv_rejects_empty_ciphertext:
  assumes "get_blob m shared_key = Some skb"
    and "handshake_async_state (conn m) = S2N_ASYNC_NOT_INVOKED"
    and "rsa_recv_length (conn m) = Inr (0, in1)"
  shows "s2n_rsa_client_key_recv_prepare e m shared_key = Inl (Inl S2N_ERR_SAFETY)
       \<and> s2n_rsa_client_key_recv e m shared_key = Inl S2N_ERR_SAFETY"
  using assms
  by (simp add: s2n_rsa_client_key_recv_def s2n_rsa_client_key_recv_prepare_def Let_def
        S2N_ASYNC_PKEY_GUARD_def set_blob_conn_fields rsa_recv_length_set_blob
        s2n_stuffer_raw_read_def gt_check_def)

theorem rsa_recv_rejects_empty_ciphertext_witness:
  "rsa_recv_length (conn mem_sslv3_empty) = Inr (0, handshake_io (conn mem_sslv3_empty)) \<and>
   s2n_rsa_client_key_recv env0 mem_sslv3_empty (LocalBlob 0) = Inl S2N_ERR_SAFETY \<and>
   rsa_recv_length (conn mem_zero_prefix) =
     Inr (0, (handshake_io (conn mem_zero_prefix))\<lparr> read_cursor := 2 \<rparr>) \<and>
   s2n_rsa_client_key_recv env0 mem_zero_prefix (LocalBlob 0) = Inl S2N_ERR_SAFETY"
proof -
  have g1: "get_blob mem_sslv3_empty (LocalBlob 0) = Some blob_zeroed"
    and a1: "handshake_async_state (conn mem_sslv3_empty) = S2N_ASYNC_NOT_INVOKED"
    and l1: "rsa_recv_length (conn mem_sslv3_empty) =
               Inr (0, handshake_io (conn mem_sslv3_empty))"
    by (simp_all add: mem_sslv3_empty_def mem0_def conn0_def io0_def get_blob_def
          rsa_recv_length_def GUARD_def s2n_stuffer_data_available_def)
  have g2: "get_blob mem_zero_prefix (LocalBlob 0) = Some blob_zeroed"
    and a2: "handshake_async_state (conn mem_zero_prefix) = S2N_ASYNC_NOT_INVOKED"
    and l2: "rsa_recv_length (conn mem_zero_prefix) =
               Inr (0, (handshake_io (conn mem_zero_prefix))\<lparr> read_cursor := 2 \<rparr>)"
    by (simp_all add: mem_zero_prefix_def mem0_def conn0_def io0_def get_blob_def
          rsa_recv_length_def GUARD_def s2n_stuffer_data_available_def S2N_SSLv3_def
          s2n_stuffer_read_uint16_def s2n_stuffer_raw_read_def region_def)
  from rsa_recv_rejects_empty_ciphertext [OF g1 a1 l1, of env0]
    rsa_recv_rejects_empty_ciphertext [OF g2 a2 l2, of env0] l1 l2
  show ?thesis by simp
qed

subsection \<open>Writing to the transcript\<close>

lemma region_overwrite_same:
  "off + length ys \<le> length xs \<Longrightarrow> region (overwrite xs off ys) off (length ys) = Some ys"
  by (simp add: region_def overwrite_def)

lemma length_overwrite:
  "off + length ys \<le> length xs \<Longrightarrow> length (overwrite xs off ys) = length xs"
  by (simp add: overwrite_def)

lemma region_overwrite_before:
  "off + n \<le> off' \<Longrightarrow> off' + length ys \<le> length xs \<Longrightarrow>
     region (overwrite xs off' ys) off n = region xs off n"
proof -
  assume a: "off + n \<le> off'" and b: "off' + length ys \<le> length xs"
  have len: "length (overwrite xs off' ys) = length xs"
    using b by (rule length_overwrite)
  have "take n (drop off (overwrite xs off' ys)) = take n (drop off xs)"
  proof (rule nth_equalityI)
    show "length (take n (drop off (overwrite xs off' ys))) = length (take n (drop off xs))"
      by (simp add: len)
  next
    fix i assume "i < length (take n (drop off (overwrite xs off' ys)))"
    then have i: "i < n" by simp
    then have "off + i < off'" using a by simp
    then show "take n (drop off (overwrite xs off' ys)) ! i = take n (drop off xs) ! i"
      using i a b len by (simp add: overwrite_def nth_append)
  qed
  then show ?thesis by (simp add: region_def len)
qed

lemma unat_add_no_wrap:
  "(a :: u32) \<le> a + b \<Longrightarrow> unat (a + b) = unat a + unat b"
  using unat_add_lem [of a b] no_olen_add_nat [of a b] by simp

lemma raw_write_facts:
  assumes "s2n_stuffer_raw_write s n = Some (p, s')" and "length (storage s) < 2 ^ 32"
  shows "p = IoPtr (unat (write_cursor s))"
    and "write_cursor s' = write_cursor s + n"
    and "unat (write_cursor s') = unat (write_cursor s) + unat n"
    and "unat (write_cursor s) + unat n \<le> length (storage s')"
    and "length (storage s) \<le> length (storage s')"
    and "take (length (storage s)) (storage s') = storage s"
    and "length (storage s') < 2 ^ 32"
    and "read_cursor s' = read_cursor s"
proof -
  let ?need = "unat (write_cursor s) + unat n"
  consider (fits) "?need \<le> length (storage s)"
      "s' = s\<lparr> write_cursor := write_cursor s + n \<rparr>" "p = IoPtr (unat (write_cursor s))"
    | (grows) "\<not> ?need \<le> length (storage s)" "write_cursor s \<le> write_cursor s + n"
      "s' = s\<lparr> storage := storage s @ replicate (?need - length (storage s)) 0,
               write_cursor := write_cursor s + n \<rparr>" "p = IoPtr (unat (write_cursor s))"
    using assms(1) by (auto simp: s2n_stuffer_raw_write_def Let_def split: if_splits)
  then have all: "p = IoPtr (unat (write_cursor s)) \<and>
      write_cursor s' = write_cursor s + n \<and>
      unat (write_cursor s') = ?need \<and> ?need \<le> length (storage s') \<and>
      length (storage s) \<le> length (storage s') \<and>
      take (length (storage s)) (storage s') = storage s \<and>
      length (storage s') < 2 ^ 32 \<and> read_cursor s' = read_cursor s"
  proof cases
    case fits
    have "?need < 2 ^ 32" using fits(1) assms(2) by simp
    then have "unat (write_cursor s + n) = ?need"
      using unat_add_lem [of "write_cursor s" n] by simp
    with fits assms(2) show ?thesis by simp
  next
    case grows
    have u: "unat (write_cursor s + n) = ?need"
      using grows(2) by (rule unat_add_no_wrap)
    have "?need < 2 ^ 32"
      using unsigned_less [of "write_cursor s + n", where 'a = nat] u by simp
    with grows u show ?thesis by simp
  qed
  from all show "p = IoPtr (unat (write_cursor s))"
    and "write_cursor s' = write_cursor s + n"
    and "unat (write_cursor s') = unat (write_cursor s) + unat n"
    and "unat (write_cursor s) + unat n \<le> length (storage s')"
    and "length (storage s) \<le> length (storage s')"
    and "take (length (storage s)) (storage s') = storage s"
    and "length (storage s') < 2 ^ 32"
    and "read_cursor s' = read_cursor s"
    by blast+
qed

lemma write_uint16_facts:
  assumes "s2n_stuffer_write_uint16 s v = Inr s'" and "length (storage s) < 2 ^ 32"
  shows "write_cursor s' = write_cursor s + 2"
    and "unat (write_cursor s') = unat (write_cursor s) + 2"
    and "region (storage s') (unat (write_cursor s)) 2 = Some [ucast (drop_bit 8 v), ucast v]"
    and "length (storage s') < 2 ^ 32"
proof -
  from assms(1) obtain p s1 where
    rw: "s2n_stuffer_raw_write s 2 = Some (p, s1)" and
    s': "s' = s1\<lparr> storage := overwrite (storage s1) (unat (write_cursor s))
                                [ucast (drop_bit 8 v), ucast v] \<rparr>"
    by (auto simp: s2n_stuffer_write_uint16_def split: option.splits)
  note f = raw_write_facts [OF rw assms(2)]
  have fit: "unat (write_cursor s) + length [ucast (drop_bit 8 v) :: u8, ucast v]
               \<le> length (storage s1)"
    using f(4) by simp
  show "write_cursor s' = write_cursor s + 2" using f(2) by (simp add: s')
  show "unat (write_cursor s') = unat (write_cursor s) + 2" using f(3) by (simp add: s')
  show "region (storage s') (unat (write_cursor s)) 2 = Some [ucast (drop_bit 8 v), ucast v]"
    using region_overwrite_same [OF fit] by (simp add: s' numeral_2_eq_2)
  show "length (storage s') < 2 ^ 32"
    using f(7) length_overwrite [OF fit] by (simp add: s')
qed

lemma region_grow:
  "take (length xs) xs' = xs \<Longrightarrow> region xs off k = Some r \<Longrightarrow> region xs' off k = Some r"
proof -
  assume t: "take (length xs) xs' = xs" and r: "region xs off k = Some r"
  from r have fit: "off + k \<le> length xs" and rv: "r = take k (drop off xs)"
    by (auto simp: region_def split: if_splits)
  from t have le: "length xs \<le> length xs'"
    by (metis length_take min.cobounded2 min_def nat_le_linear take_all)
  have "take k (drop off xs') = take k (drop off (take (length xs) xs'))"
    using fit by (simp add: drop_take min_def)
  then show ?thesis using fit le rv t by (simp add: region_def)
qed

lemma store_io:
  assumes "store m (IoPtr k) 0 ys = Some m'"
  shows "handshake_io (conn m') =
           (handshake_io (conn m))\<lparr> storage := overwrite (storage (handshake_io (conn m))) k ys \<rparr>"
    and "k + length ys \<le> length (storage (handshake_io (conn m)))"
    and "actual_protocol_version (conn m') = actual_protocol_version (conn m)"
  using assms
  by (auto simp: store_def load_def region_def split: option.splits if_splits)

lemma store_premaster_keeps:
  assumes "store m PremasterPtr off ys = Some m'"
  shows "handshake_io (conn m') = handshake_io (conn m)"
    and "actual_protocol_version (conn m') = actual_protocol_version (conn m)"
    and "get_blob m' bp = get_blob m bp"
  using assms
  by (auto simp: store_def get_blob_def split: option.splits blob_ptr.splits)

lemma random_data_premaster_keeps:
  assumes "get_blob m bp = Some b" and "data b = PremasterPtr"
    and "s2n_get_private_random_data e m bp = Inr m'"
  shows "handshake_io (conn m') = handshake_io (conn m)"
    and "actual_protocol_version (conn m') = actual_protocol_version (conn m)"
  using assms store_premaster_keeps [of m 0 "random_bytes e (unat (size_b b))" m']
  by (auto simp: s2n_get_private_random_data_def split: if_splits option.splits)

lemma send_success_io:
  assumes "s2n_rsa_client_key_send e m sk = Inr m'"
  shows "\<exists>n io1 io2 secret ct.
      pkey_size e = Inr n \<and> n \<le> 0xffff \<and>
      (if actual_protocol_version (conn m) > S2N_SSLv3
       then s2n_stuffer_write_uint16 (handshake_io (conn m)) (ucast n)
       else Inr (handshake_io (conn m))) = Inr io1 \<and>
      s2n_stuffer_raw_write io1 n = Some (IoPtr (unat (write_cursor io1)), io2) \<and>
      pkey_encrypt e secret (unat n) = Inr ct \<and>
      unat (write_cursor io1) + length (take (unat n) ct) \<le> length (storage io2) \<and>
      handshake_io (conn m') =
        io2\<lparr> storage := overwrite (storage io2) (unat (write_cursor io1)) (take (unat n) ct) \<rparr>"
proof -
  from send_success [OF assms] obtain skb m2 m3 n io1 p io2 secret ct m5 where
    sk: "get_blob m sk = Some skb" and
    rnd: "s2n_get_private_random_data e
        (set_blob m sk (skb\<lparr> data := PremasterPtr, size_b := of_nat S2N_TLS_SECRET_LEN \<rparr>)) sk = Inr m2" and
    st: "store m2 PremasterPtr 0 (version_wire (get_client_hello_protocol_version (conn m))) = Some m3" and
    n: "pkey_size e = Inr n" "n \<le> 0xffff" and
    io1: "(if actual_protocol_version (conn m3) > S2N_SSLv3
       then s2n_stuffer_write_uint16 (handshake_io (conn m3)) (ucast n)
       else Inr (handshake_io (conn m3))) = Inr io1" and
    rw: "s2n_stuffer_raw_write io1 n = Some (p, io2)" and
    enc: "pkey_encrypt e secret (unat n) = Inr ct" and
    st5: "store (m3\<lparr> conn := (conn m3)\<lparr> handshake_io := io2 \<rparr> \<rparr>) p 0 (take (unat n) ct) = Some m5" and
    m': "m' = m5\<lparr> conn := (conn m5)\<lparr> server_public_key_live := False \<rparr> \<rparr>"
    by blast
  note k2 = random_data_premaster_keeps [OF get_set_blob [OF sk] _ rnd, simplified]
  note k3 = store_premaster_keeps(1,2) [OF st]
  have io3: "handshake_io (conn m3) = handshake_io (conn m)"
    and v3: "actual_protocol_version (conn m3) = actual_protocol_version (conn m)"
    using k2 k3 by (simp_all add: set_blob_conn_fields)
  have p: "p = IoPtr (unat (write_cursor io1))" using raw_write_ptr [OF rw] .
  note s5 = store_io(1,2) [OF st5 [unfolded p]]
  have "pkey_size e = Inr n \<and> n \<le> 0xffff \<and>
      (if actual_protocol_version (conn m) > S2N_SSLv3
       then s2n_stuffer_write_uint16 (handshake_io (conn m)) (ucast n)
       else Inr (handshake_io (conn m))) = Inr io1 \<and>
      s2n_stuffer_raw_write io1 n = Some (IoPtr (unat (write_cursor io1)), io2) \<and>
      pkey_encrypt e secret (unat n) = Inr ct \<and>
      unat (write_cursor io1) + length (take (unat n) ct) \<le> length (storage io2) \<and>
      handshake_io (conn m') =
        io2\<lparr> storage := overwrite (storage io2) (unat (write_cursor io1)) (take (unat n) ct) \<rparr>"
    using n io1 [unfolded io3 v3] rw enc s5 by (simp add: p m')
  then show ?thesis by blast
qed

lemma store_premaster_ok:
  "off + length ys \<le> length (rsa_premaster_secret (conn m)) \<Longrightarrow>
   store m PremasterPtr off ys =
     Some (m\<lparr> conn := (conn m)\<lparr> rsa_premaster_secret :=
                 overwrite (rsa_premaster_secret (conn m)) off ys \<rparr> \<rparr>)"
  by (simp add: store_def load_def region_def)

lemma send_size_mismatch:
  assumes "get_blob m sk = Some skb" and "random_ok e"
    and "S2N_TLS_SECRET_LEN \<le> length (rsa_premaster_secret (conn m))"
    and "pkey_size e = Inr n" and "0xffff < n"
  shows "s2n_rsa_client_key_send e m sk = Inl S2N_ERR_SIZE_MISMATCH"
proof -
  let ?b = "skb\<lparr> data := PremasterPtr, size_b := of_nat S2N_TLS_SECRET_LEN \<rparr>"
  let ?m1 = "set_blob m sk ?b"
  let ?m2 = "?m1\<lparr> conn := (conn ?m1)\<lparr> rsa_premaster_secret :=
                 overwrite (rsa_premaster_secret (conn ?m1)) 0 (random_bytes e S2N_TLS_SECRET_LEN) \<rparr> \<rparr>"
  have rnd: "s2n_get_private_random_data e ?m1 sk = Inr ?m2"
    using assms(2,3) get_set_blob [OF assms(1), of ?b]
      store_premaster_ok [of 0 "random_bytes e S2N_TLS_SECRET_LEN" ?m1]
    by (simp add: s2n_get_private_random_data_def secret_len_word length_random_bytes
          set_blob_conn_fields)
  have len2: "2 \<le> length (rsa_premaster_secret (conn ?m2))"
    using assms(3) by (simp add: overwrite_def length_random_bytes S2N_TLS_SECRET_LEN_def)
  have "\<exists>m3. store ?m2 PremasterPtr 0
               (take S2N_TLS_PROTOCOL_VERSION_LEN
                 (version_wire (get_client_hello_protocol_version (conn m)))) = Some m3"
    using len2 store_premaster_ok [of 0 "version_wire (get_client_hello_protocol_version (conn m))" ?m2]
    by (simp add: version_wire_def S2N_TLS_PROTOCOL_VERSION_LEN_def)
  then obtain m3 where st: "store ?m2 PremasterPtr 0
               (take S2N_TLS_PROTOCOL_VERSION_LEN
                 (version_wire (get_client_hello_protocol_version (conn m)))) = Some m3" ..
  show ?thesis
    using assms(1,4,5) rnd st
    by (simp add: s2n_rsa_client_key_send_def Let_def GUARD_def)
qed

lemma send_transcript:
  assumes run: "s2n_rsa_client_key_send e m sk = Inr m'"
    and len: "length (storage (handshake_io (conn m))) < 2 ^ 32"
    and n: "pkey_size e = Inr n"
  shows "let io = handshake_io (conn m); io' = handshake_io (conn m');
             wc = unat (write_cursor io);
             pre = (if actual_protocol_version (conn m) > S2N_SSLv3 then 2 else 0) in
         unat (write_cursor io') = wc + pre + unat n \<and>
         (actual_protocol_version (conn m) > S2N_SSLv3 \<longrightarrow>
            region (storage io') wc 2 =
              Some [ucast (drop_bit 8 (ucast n :: u16)), ucast (ucast n :: u16)]) \<and>
         (\<exists>secret ct. pkey_encrypt e secret (unat n) = Inr ct \<and>
            region (storage io') (wc + pre) (length (take (unat n) ct)) =
              Some (take (unat n) ct))"
proof -
  let ?io = "handshake_io (conn m)"
  let ?wc = "unat (write_cursor ?io)"
  from send_success_io [OF run] n obtain io1 io2 secret ct where
    io1: "(if actual_protocol_version (conn m) > S2N_SSLv3
       then s2n_stuffer_write_uint16 ?io (ucast n)
       else Inr ?io) = Inr io1" and
    rw: "s2n_stuffer_raw_write io1 n = Some (IoPtr (unat (write_cursor io1)), io2)" and
    enc: "pkey_encrypt e secret (unat n) = Inr ct" and
    fit: "unat (write_cursor io1) + length (take (unat n) ct) \<le> length (storage io2)" and
    io': "handshake_io (conn m') =
        io2\<lparr> storage := overwrite (storage io2) (unat (write_cursor io1)) (take (unat n) ct) \<rparr>"
    by auto
  let ?ys = "take (unat n) ct"
  have ct_at: "region (storage (handshake_io (conn m'))) (unat (write_cursor io1)) (length ?ys) =
                 Some ?ys"
    unfolding io' using region_overwrite_same [OF fit] by simp
  show ?thesis
  proof (cases "actual_protocol_version (conn m) > S2N_SSLv3")
    case True
    with io1 have w: "s2n_stuffer_write_uint16 ?io (ucast n) = Inr io1" by simp
    note f1 = write_uint16_facts [OF w len]
    note f2 = raw_write_facts [OF rw f1(4)]
    have "region (storage io2) ?wc 2 =
            Some [ucast (drop_bit 8 (ucast n :: u16)), ucast (ucast n :: u16)]"
      using region_grow [OF f2(6) f1(3)] .
    moreover have "?wc + 2 \<le> unat (write_cursor io1)" using f1(2) by simp
    ultimately have pre: "region (storage (handshake_io (conn m'))) ?wc 2 =
            Some [ucast (drop_bit 8 (ucast n :: u16)), ucast (ucast n :: u16)]"
      unfolding io' using region_overwrite_before [OF _ fit, of ?wc 2] by simp
    have "unat (write_cursor (handshake_io (conn m'))) = ?wc + 2 + unat n"
      using f1(2) f2(3) by (simp add: io')
    with pre ct_at enc True f1(2) show ?thesis
      by (auto simp: Let_def)
  next
    case False
    with io1 have e1: "io1 = ?io" by simp
    note f2 = raw_write_facts [OF rw [unfolded e1] len]
    have "unat (write_cursor (handshake_io (conn m'))) = ?wc + unat n"
      using f2(3) by (simp add: io')
    with ct_at enc False e1 show ?thesis
      by (auto simp: Let_def)
  qed
qed

subsection \<open>The size check and length prefix of the RSA send path\<close>

text \<open>
  C8. When the public key of the responder asks for a ciphertext of more than 0xffff
  bytes, \<^verbatim>\<open>s2n_rsa_client_key_send\<close> fails, and once the premaster secret has been
  generated (the shared key is not null, the random generator succeeds, the premaster
  buffer has its size) the failure is the size-mismatch error. When it succeeds, the
  write cursor of the transcript has moved by the ciphertext size plus 2 if the
  negotiated version is newer than SSLv3 and plus 0 otherwise; in the first case the two
  bytes at the old write cursor are the big-endian ciphertext size; and the ciphertext
  lies right behind them, or, when the version is not newer than SSLv3, at the old
  write cursor itself.
\<close>

theorem rsa_send_size_check_and_length_prefix:
  assumes "pkey_size e = Inr n"
  shows "(0xffff < n \<longrightarrow>
            isl (s2n_rsa_client_key_send e m shared_key) \<and>
            (get_blob m shared_key \<noteq> None \<and> random_ok e \<and>
             S2N_TLS_SECRET_LEN \<le> length (rsa_premaster_secret (conn m)) \<longrightarrow>
             s2n_rsa_client_key_send e m shared_key = Inl S2N_ERR_SIZE_MISMATCH))
       \<and> (s2n_rsa_client_key_send e m shared_key = Inr m' \<and>
          length (storage (handshake_io (conn m))) < 2 ^ 32 \<longrightarrow>
            (let io = handshake_io (conn m); io' = handshake_io (conn m');
                 wc = unat (write_cursor io);
                 pre = (if actual_protocol_version (conn m) > S2N_SSLv3 then 2 else 0) in
             unat (write_cursor io') = wc + pre + unat n \<and>
             (actual_protocol_version (conn m) > S2N_SSLv3 \<longrightarrow>
                region (storage io') wc 2 =
                  Some [ucast (drop_bit 8 (ucast n :: u16)), ucast (ucast n :: u16)]) \<and>
             (\<exists>secret ct. pkey_encrypt e secret (unat n) = Inr ct \<and>
                region (storage io') (wc + pre) (length (take (unat n) ct)) =
                  Some (take (unat n) ct))))"
proof (intro conjI impI)
  assume big: "0xffff < n"
  show "isl (s2n_rsa_client_key_send e m shared_key)"
  proof (cases "s2n_rsa_client_key_send e m shared_key")
    case (Inr m'')
    from send_success [OF Inr] assms big show ?thesis by auto
  qed simp
next
  assume "0xffff < n" and "get_blob m shared_key \<noteq> None \<and> random_ok e \<and>
             S2N_TLS_SECRET_LEN \<le> length (rsa_premaster_secret (conn m))"
  with assms show "s2n_rsa_client_key_send e m shared_key = Inl S2N_ERR_SIZE_MISMATCH"
    by (auto intro: send_size_mismatch)
next
  assume "s2n_rsa_client_key_send e m shared_key = Inr m' \<and>
          length (storage (handshake_io (conn m))) < 2 ^ 32"
  then show "let io = handshake_io (conn m); io' = handshake_io (conn m');
                 wc = unat (write_cursor io);
                 pre = (if actual_protocol_version (conn m) > S2N_SSLv3 then 2 else 0) in
             unat (write_cursor io') = wc + pre + unat n \<and>
             (actual_protocol_version (conn m) > S2N_SSLv3 \<longrightarrow>
                region (storage io') wc 2 =
                  Some [ucast (drop_bit 8 (ucast n :: u16)), ucast (ucast n :: u16)]) \<and>
             (\<exists>secret ct. pkey_encrypt e secret (unat n) = Inr ct \<and>
                region (storage io') (wc + pre) (length (take (unat n) ct)) =
                  Some (take (unat n) ct))"
    using send_transcript [OF _ _ assms, of m shared_key m'] by blast
qed

theorem rsa_send_size_check_and_length_prefix_witness:
  "s2n_rsa_client_key_send env_large_key mem0 (LocalBlob 0) = Inl S2N_ERR_SIZE_MISMATCH \<and>
   (\<exists>m'. s2n_rsa_client_key_send env0 mem0 (LocalBlob 0) = Inr m' \<and>
      unat (write_cursor (handshake_io (conn m'))) = 8 \<and>
      region (storage (handshake_io (conn m'))) 4 2 = Some [0, 2]) \<and>
   (\<exists>m'. s2n_rsa_client_key_send env0 mem_sslv3 (LocalBlob 0) = Inr m' \<and>
      unat (write_cursor (handshake_io (conn m'))) = 6)"
proof -
  have big: "pkey_size env_large_key = Inr 0x10000" "random_ok env_large_key"
    by (simp_all add: env_large_key_def env0_def)
  have m0: "get_blob mem0 (LocalBlob 0) \<noteq> None"
    "S2N_TLS_SECRET_LEN \<le> length (rsa_premaster_secret (conn mem0))"
    "length (storage (handshake_io (conn mem0))) < 2 ^ 32"
    "unat (write_cursor (handshake_io (conn mem0))) = 4"
    "actual_protocol_version (conn mem0) > S2N_SSLv3"
    by (simp_all add: get_blob_def mem0_def conn0_def io0_def S2N_TLS_SECRET_LEN_def
          S2N_SSLv3_def)
  have m3: "length (storage (handshake_io (conn mem_sslv3))) < 2 ^ 32"
    "unat (write_cursor (handshake_io (conn mem_sslv3))) = 4"
    "\<not> actual_protocol_version (conn mem_sslv3) > S2N_SSLv3"
    by (simp_all add: mem_sslv3_def conn_sslv3_def mem0_def conn0_def io0_def)
  have sz: "pkey_size env0 = Inr 2" by (simp add: env0_def)
  have "\<not> isl (s2n_rsa_client_key_send env0 mem0 (LocalBlob 0))" by code_simp
  then obtain m' where r1: "s2n_rsa_client_key_send env0 mem0 (LocalBlob 0) = Inr m'"
    by (cases "s2n_rsa_client_key_send env0 mem0 (LocalBlob 0)") auto
  have "\<not> isl (s2n_rsa_client_key_send env0 mem_sslv3 (LocalBlob 0))" by code_simp
  then obtain m'' where r2: "s2n_rsa_client_key_send env0 mem_sslv3 (LocalBlob 0) = Inr m''"
    by (cases "s2n_rsa_client_key_send env0 mem_sslv3 (LocalBlob 0)") auto
  from rsa_send_size_check_and_length_prefix [OF big(1), of mem0 "LocalBlob 0"] big(2) m0
  have a: "s2n_rsa_client_key_send env_large_key mem0 (LocalBlob 0) = Inl S2N_ERR_SIZE_MISMATCH"
    by simp
  from rsa_send_size_check_and_length_prefix [OF sz, of mem0 "LocalBlob 0" m'] r1 m0
  have b: "unat (write_cursor (handshake_io (conn m'))) = 8 \<and>
      region (storage (handshake_io (conn m'))) 4 2 = Some [0, 2]"
    by (simp add: Let_def)
  from rsa_send_size_check_and_length_prefix [OF sz, of mem_sslv3 "LocalBlob 0" m''] r2 m3
  have c: "unat (write_cursor (handshake_io (conn m''))) = 6"
    by (simp add: Let_def)
  from a b c r1 r2 show ?thesis by blast
qed

subsection \<open>The hybrid combiner: the captured message\<close>

lemma span_view_set_blob: "span_view (set_blob m p b) = span_view m"
  by (simp add: span_view_def set_blob_def split: blob_ptr.splits)

lemma span_view_store: "store m p off ys = Some m' \<Longrightarrow> span_view m' = span_view m"
  by (auto simp: span_view_def store_def split: option.splits data_ptr.splits)

lemma span_view_release: "span_view (release m p) = span_view m"
  by (simp add: span_view_def release_def split: data_ptr.splits)

lemma span_view_alloc: "s2n_alloc e m bp n = Inr m' \<Longrightarrow> span_view m' = span_view m"
  by (auto simp: s2n_alloc_def span_view_set_blob split: option.splits if_splits)
     (simp add: span_view_def)

lemma span_view_free: "s2n_free m bp = Inr m' \<Longrightarrow> span_view m' = span_view m"
  by (auto simp: s2n_free_def span_view_set_blob span_view_release split: option.splits)

lemma span_view_stuffer_write:
  "s2n_stuffer_write m st b = Inr (m', st') \<Longrightarrow> span_view m' = span_view m"
  by (auto simp: s2n_stuffer_write_def span_view_store split: option.splits if_splits)

lemma hybrid_combine_success:
  assumes "hybrid_combine e m c i = Inr m'"
  obtains sk0 m5 cb sk0' m6 st1 m7 st2 where
    "get_blob m (LocalBlob i) = Some sk0"
    "s2n_alloc e m c (size_b sk0 + size_b (kem_shared_secret (conn m))) = Inr m5"
    "get_blob m5 c = Some cb" "get_blob m5 (LocalBlob i) = Some sk0'"
    "s2n_stuffer_write m5 \<lparr> blob = cb, bs_write_cursor = 0 \<rparr> sk0' = Inr (m6, st1)"
    "s2n_stuffer_write m6 st1 (kem_shared_secret (conn m6)) = Inr (m7, st2)"
    "s2n_kem_free m7 = Inr m'"
  using assms unfolding hybrid_combine_def s2n_stuffer_init_def
  by (auto simp: Inr_iffs split: option.splits prod.splits)

lemma span_view_combine:
  assumes "hybrid_combine e m c i = Inr m'"
  shows "span_view m' = span_view m"
  using assms
  by (elim hybrid_combine_success)
     (simp add: span_view_alloc span_view_stuffer_write span_view_free s2n_kem_free_def)

lemma span_view_cleanup: "span_view (hybrid_cleanup m i) = span_view m"
proof (cases "s2n_free m (LocalBlob i)")
  case (Inl err)
  then show ?thesis by (simp add: hybrid_cleanup_def span_view_def)
next
  case (Inr m1)
  from span_view_free [OF Inr] Inr show ?thesis
    by (simp add: hybrid_cleanup_def span_view_def)
qed

lemma span_view_fields:
  "span_view m' = span_view m \<Longrightarrow>
     client_key_exchange_message (conn m') = client_key_exchange_message (conn m) \<and>
     deref_cursor (conn m') cursor = deref_cursor (conn m) cursor"
  by (simp add: span_view_def deref_cursor_def split: cursor_ptr.splits)


lemma deref_cursor_message_update:
  "deref_cursor (c\<lparr> client_key_exchange_message := x \<rparr>) cursor = deref_cursor c cursor"
  by (simp add: deref_cursor_def split: cursor_ptr.splits)

text \<open>
  C7. In the hybrid combiner, let the start cursor be the position of the transcript
  cursor before the two sub-operations and the end cursor its position after both of
  them have succeeded. When the end cursor is less than the start cursor the operation
  fails with the safety error. When the operation succeeds the start cursor is at most
  the end cursor, the captured client key exchange message recorded in the connection
  has the size end minus start, which as a number is the difference of the two
  positions and so never negative, and the cursor still stands at the end position.
\<close>

theorem hybrid_captured_message_span:
  assumes "stuffer_action (handshake_io (conn m)) 0 = Some (p, io1)"
    and "p \<noteq> NullPtr"
    and "m2 = m\<lparr> conn := (conn m)\<lparr> handshake_io := io1,
                   client_key_exchange_message :=
                     (client_key_exchange_message (conn m))\<lparr> data := p \<rparr> \<rparr>,
                 local_blobs := local_blobs m @ [blob_zeroed] \<rparr>"
    and "kex_method (hybrid (key_exchange_alg (conn m)) 0) m2
           (LocalBlob (length (local_blobs m))) = Inr m3"
    and "kex_method (hybrid (key_exchange_alg (conn m)) 1) m3 KemSharedSecret = Inr m4"
    and "start_cursor = deref_cursor (conn m2) cursor"
    and "end_cursor = deref_cursor (conn m4) cursor"
  shows "(end_cursor < start_cursor \<longrightarrow>
            s2n_hybrid_client_action e m combined_shared_key (Some kex_method) cursor
              (Some stuffer_action) = Inl S2N_ERR_SAFETY)
       \<and> (s2n_hybrid_client_action e m combined_shared_key (Some kex_method) cursor
              (Some stuffer_action) = Inr m' \<longrightarrow>
            start_cursor \<le> end_cursor \<and>
            size_b (client_key_exchange_message (conn m')) = end_cursor - start_cursor \<and>
            unat (size_b (client_key_exchange_message (conn m'))) =
              unat end_cursor - unat start_cursor \<and>
            deref_cursor (conn m') cursor = end_cursor)"
proof (intro conjI impI)
  have ev: "hybrid_sub_operations m (Some kex_method) cursor (Some stuffer_action) =
           (if start_cursor \<le> end_cursor
            then Inr (m4\<lparr> conn := (conn m4)\<lparr> client_key_exchange_message :=
                        (client_key_exchange_message (conn m4))
                          \<lparr> size_b := end_cursor - start_cursor \<rparr> \<rparr> \<rparr>)
            else Inl S2N_ERR_SAFETY)"
    using assms
    by (simp add: hybrid_sub_operations_def Let_def GUARD_def gte_check_def deref_cursor_def
        split: cursor_ptr.splits)
  {
    assume "end_cursor < start_cursor"
    then have "\<not> start_cursor \<le> end_cursor" by simp
    then show "s2n_hybrid_client_action e m combined_shared_key (Some kex_method) cursor
              (Some stuffer_action) = Inl S2N_ERR_SAFETY"
      using ev by (simp add: s2n_hybrid_client_action_def GUARD_def)
  }
  assume run: "s2n_hybrid_client_action e m combined_shared_key (Some kex_method) cursor
              (Some stuffer_action) = Inr m'"
  let ?m4' = "m4\<lparr> conn := (conn m4)\<lparr> client_key_exchange_message :=
                        (client_key_exchange_message (conn m4))
                          \<lparr> size_b := end_cursor - start_cursor \<rparr> \<rparr> \<rparr>"
  from run ev obtain m8 where
    le: "start_cursor \<le> end_cursor" and
    comb: "hybrid_combine e ?m4' combined_shared_key (length (local_blobs m)) = Inr m8" and
    m': "m' = hybrid_cleanup m8 (length (local_blobs m))"
    by (auto simp: s2n_hybrid_client_action_def Inr_iffs split: if_splits)
  have "span_view m' = span_view ?m4'"
    using span_view_combine [OF comb] by (simp add: m' span_view_cleanup)
  from span_view_fields [OF this, of cursor]
  have sz: "size_b (client_key_exchange_message (conn m')) = end_cursor - start_cursor"
    and cur: "deref_cursor (conn m') cursor = end_cursor"
    using assms(7) by (simp_all add: deref_cursor_message_update)
  show "start_cursor \<le> end_cursor" by (rule le)
  show "size_b (client_key_exchange_message (conn m')) = end_cursor - start_cursor" by (rule sz)
  show "unat (size_b (client_key_exchange_message (conn m'))) =
              unat end_cursor - unat start_cursor"
    using le by (simp add: sz unat_sub)
  show "deref_cursor (conn m') cursor = end_cursor" by (rule cur)
qed


theorem hybrid_captured_message_span_witness:
  "(\<exists>m'. s2n_hybrid_client_key_recv env_hybrid mem_hybrid (LocalBlob 0) = Inr m' \<and>
      size_b (client_key_exchange_message (conn m')) = 4 \<and>
      read_cursor (handshake_io (conn m')) = 4) \<and>
   s2n_hybrid_client_action env_hybrid mem_hybrid_read2 (LocalBlob 0)
     (Some rewinding_kex_method) ReadCursor (Some s2n_stuffer_raw_read) = Inl S2N_ERR_SAFETY"
proof -
  let ?m2 = "mem_hybrid\<lparr> conn := (conn mem_hybrid)\<lparr> handshake_io := io0,
                   client_key_exchange_message :=
                     (client_key_exchange_message (conn mem_hybrid))\<lparr> data := IoPtr 0 \<rparr> \<rparr>,
                 local_blobs := local_blobs mem_hybrid @ [blob_zeroed] \<rparr>"
  let ?m3 = "put_secret (advance_read ?m2 2) (LocalBlob 1) (replicate 32 0xA1)"
  let ?m4 = "put_secret (advance_read ?m3 2) KemSharedSecret (replicate 64 0xB2)"
  have h1: "s2n_stuffer_raw_read (handshake_io (conn mem_hybrid)) 0 = Some (IoPtr 0, io0)"
    by (simp add: s2n_stuffer_raw_read_def mem_hybrid_def mem0_def conn0_def io0_def
          s2n_stuffer_data_available_def)
  have h3: "example_kex_method (hybrid (key_exchange_alg (conn mem_hybrid)) 0) ?m2
              (LocalBlob (length (local_blobs mem_hybrid))) = Inr ?m3"
    by (simp add: example_kex_method_def mem_hybrid_def mem0_def)
  have h4: "example_kex_method (hybrid (key_exchange_alg (conn mem_hybrid)) 1) ?m3
              KemSharedSecret = Inr ?m4"
    by (simp add: example_kex_method_def mem_hybrid_def mem0_def)
  have h5: "0 = deref_cursor (conn ?m2) ReadCursor"
    by (simp add: deref_cursor_def io0_def)
  have h6: "4 = deref_cursor (conn ?m4) ReadCursor"
    by (simp add: deref_cursor_def io0_def put_secret_def advance_read_def set_blob_def)
  have "\<not> isl (s2n_hybrid_client_key_recv env_hybrid mem_hybrid (LocalBlob 0))"
    by code_simp
  then obtain m' where
    run: "s2n_hybrid_client_action env_hybrid mem_hybrid (LocalBlob 0) (Some example_kex_method)
            ReadCursor (Some s2n_stuffer_raw_read) = Inr m'"
    by (cases "s2n_hybrid_client_key_recv env_hybrid mem_hybrid (LocalBlob 0)")
       (auto simp: s2n_hybrid_client_key_recv_def env_hybrid_def)
  from hybrid_captured_message_span
         [where stuffer_action = s2n_stuffer_raw_read and kex_method = example_kex_method
            and e = env_hybrid and combined_shared_key = "LocalBlob 0" and m' = m',
          OF h1 _ refl h3 h4 h5 h6] run
  have a: "size_b (client_key_exchange_message (conn m')) = 4 \<and>
           read_cursor (handshake_io (conn m')) = 4"
    by (simp add: deref_cursor_def)
  let ?io2 = "io0\<lparr> read_cursor := 2 \<rparr>"
  let ?n2 = "mem_hybrid_read2\<lparr> conn := (conn mem_hybrid_read2)\<lparr> handshake_io := ?io2,
                   client_key_exchange_message :=
                     (client_key_exchange_message (conn mem_hybrid_read2))\<lparr> data := IoPtr 2 \<rparr> \<rparr>,
                 local_blobs := local_blobs mem_hybrid_read2 @ [blob_zeroed] \<rparr>"
  let ?n3 = "?n2\<lparr> conn := (conn ?n2)\<lparr> handshake_io := (handshake_io (conn ?n2))\<lparr> read_cursor := 0 \<rparr> \<rparr> \<rparr>"
  let ?n4 = "?n3\<lparr> conn := (conn ?n3)\<lparr> handshake_io := (handshake_io (conn ?n3))\<lparr> read_cursor := 0 \<rparr> \<rparr> \<rparr>"
  have g1: "s2n_stuffer_raw_read (handshake_io (conn mem_hybrid_read2)) 0 = Some (IoPtr 2, ?io2)"
    by (simp add: s2n_stuffer_raw_read_def mem_hybrid_read2_def advance_read_def mem_hybrid_def
          mem0_def conn0_def io0_def s2n_stuffer_data_available_def)
  have g3: "rewinding_kex_method (hybrid (key_exchange_alg (conn mem_hybrid_read2)) 0) ?n2
              (LocalBlob (length (local_blobs mem_hybrid_read2))) = Inr ?n3"
    by (simp add: rewinding_kex_method_def)
  have g4: "rewinding_kex_method (hybrid (key_exchange_alg (conn mem_hybrid_read2)) 1) ?n3
              KemSharedSecret = Inr ?n4"
    by (simp add: rewinding_kex_method_def)
  have g5: "2 = deref_cursor (conn ?n2) ReadCursor"
    by (simp add: deref_cursor_def io0_def)
  have g6: "0 = deref_cursor (conn ?n4) ReadCursor"
    by (simp add: deref_cursor_def)
  from hybrid_captured_message_span
         [where stuffer_action = s2n_stuffer_raw_read and kex_method = rewinding_kex_method
            and e = env_hybrid and combined_shared_key = "LocalBlob 0",
          OF g1 _ refl g3 g4 g5 g6]
  have b: "s2n_hybrid_client_action env_hybrid mem_hybrid_read2 (LocalBlob 0)
     (Some rewinding_kex_method) ReadCursor (Some s2n_stuffer_raw_read) = Inl S2N_ERR_SAFETY"
    by simp
  from a b run show ?thesis
    by (auto simp: s2n_hybrid_client_key_recv_def env_hybrid_def)
qed

subsection \<open>The hybrid combiner: the combined secret\<close>

lemma blob_bytes_length: "blob_bytes m b = Some X \<Longrightarrow> length X = unat (size_b b)"
  by (auto simp: blob_bytes_def load_length split: if_splits)

lemma overwrite_nothing: "off \<le> length Z \<Longrightarrow> overwrite Z off [] = Z"
  by (simp add: overwrite_def)

lemma stuffer_write_block:
  assumes st: "data (blob st) = HeapPtr h"
    and hp: "h < length (heap m)" "heap m ! h = (True, Z)"
    and fits: "unat (bs_write_cursor st) + unat (size_b inb) \<le> unat (size_b (blob st))"
      "unat (size_b (blob st)) = length Z"
    and X: "blob_bytes m inb = Some X"
  shows "s2n_stuffer_write m st inb =
           Inr (m\<lparr> heap := (heap m)[h := (True, overwrite Z (unat (bs_write_cursor st)) X)] \<rparr>,
                st\<lparr> bs_write_cursor := bs_write_cursor st + size_b inb \<rparr>)"
proof (cases "size_b inb = 0")
  case True
  with X have "X = []" by (simp add: blob_bytes_def)
  moreover have "(heap m)[h := (True, Z)] = heap m"
    using hp by (metis list_update_id)
  ultimately show ?thesis
    using True fits by (simp add: s2n_stuffer_write_def overwrite_nothing)
next
  case False
  with X have ld: "load m (data inb) 0 (unat (size_b inb)) = Some X"
    by (simp add: blob_bytes_def)
  have lx: "length X = unat (size_b inb)" using blob_bytes_length [OF X] .
  have "load m (HeapPtr h) (unat (bs_write_cursor st)) (length X) \<noteq> None"
    using hp fits lx by (simp add: load_def region_def)
  then have "store m (HeapPtr h) (unat (bs_write_cursor st)) X =
          Some (m\<lparr> heap := (heap m)[h := (True, overwrite Z (unat (bs_write_cursor st)) X)] \<rparr>)"
    using hp by (auto simp: store_def)
  then show ?thesis
    using False fits ld st by (simp add: s2n_stuffer_write_def not_less)
qed

lemma blob_bytes_frame:
  assumes "blob_bytes m b = Some X"
    and "rsa_premaster_secret (conn m') = rsa_premaster_secret (conn m)"
    and "storage (handshake_io (conn m')) = storage (handshake_io (conn m))"
    and "\<And>a. a < length (heap m) \<Longrightarrow> a \<noteq> h \<Longrightarrow>
           a < length (heap m') \<and> heap m' ! a = heap m ! a"
    and "data b \<noteq> HeapPtr h"
  shows "blob_bytes m' b = Some X"
  using assms
  by (auto simp: blob_bytes_def load_def split: data_ptr.splits if_splits)

lemma release_heap_other:
  "h < length (heap m) \<Longrightarrow> p \<noteq> HeapPtr h \<Longrightarrow>
     length (heap (release m p)) = length (heap m) \<and> heap (release m p) ! h = heap m ! h \<and>
     local_blobs (release m p) = local_blobs m \<and> conn (release m p) = conn m"
  by (auto simp: release_def nth_list_update split: data_ptr.splits)

lemma valid_not_fresh:
  "blob_valid m b \<Longrightarrow> data b \<noteq> HeapPtr (length (heap m))"
  by (auto simp: blob_valid_def split: data_ptr.splits)

lemma unat_sum_sizes:
  assumes "unat (a :: u32) + unat b < 2 ^ 32"
  shows "unat (a + b) = unat a + unat b"
  using assms unat_add_lem [of a b] by simp

lemma hybrid_combine_ok:
  assumes i: "i < length (local_blobs m)" and j: "j < length (local_blobs m)" "j \<noteq> i"
    and v0: "blob_valid m (local_blobs m ! i)"
    and v1: "blob_valid m (kem_shared_secret (conn m))"
    and A: "blob_bytes m (local_blobs m ! i) = Some A"
    and B: "blob_bytes m (kem_shared_secret (conn m)) = Some B"
    and ok: "alloc_ok e (length A + length B)" and nw: "length A + length B < 2 ^ 32"
  shows "\<exists>m8. hybrid_combine e m (LocalBlob j) i = Inr m8 \<and>
           local_blobs m8 = (local_blobs m)
             [j := \<lparr> data = HeapPtr (length (heap m)),
                      size_b = size_b (local_blobs m ! i) + size_b (kem_shared_secret (conn m)),
                      allocated = size_b (local_blobs m ! i) + size_b (kem_shared_secret (conn m)) \<rparr>] \<and>
           unat (size_b (local_blobs m ! i) + size_b (kem_shared_secret (conn m))) =
             length A + length B \<and>
           length (heap m8) = Suc (length (heap m)) \<and>
           heap m8 ! (length (heap m)) = (True, A @ B)"
proof -
  let ?sk0 = "local_blobs m ! i"
  let ?sk1 = "kem_shared_secret (conn m)"
  let ?n = "size_b ?sk0 + size_b ?sk1"
  let ?h = "length (heap m)"
  let ?cb = "\<lparr> data = HeapPtr ?h, size_b = ?n, allocated = ?n \<rparr>"
  have lA: "length A = unat (size_b ?sk0)" and lB: "length B = unat (size_b ?sk1)"
    using blob_bytes_length [OF A] blob_bytes_length [OF B] by simp_all
  have un: "unat ?n = length A + length B"
    using nw unfolding lA lB by (rule unat_sum_sizes)
  let ?Z = "replicate (length A + length B) (0 :: u8)"
  let ?m5 = "m\<lparr> heap := heap m @ [(True, ?Z)], local_blobs := (local_blobs m)[j := ?cb] \<rparr>"
  have g0: "get_blob m (LocalBlob i) = Some ?sk0" using i by (simp add: get_blob_def)
  have al: "s2n_alloc e m (LocalBlob j) ?n = Inr ?m5"
    using j ok by (simp add: s2n_alloc_def get_blob_def un set_blob_def)
  have g5c: "get_blob ?m5 (LocalBlob j) = Some ?cb" using j by (simp add: get_blob_def)
  have g5i: "get_blob ?m5 (LocalBlob i) = Some ?sk0" using i j by (simp add: get_blob_def)
  have nf0: "data ?sk0 \<noteq> HeapPtr ?h" and nf1: "data ?sk1 \<noteq> HeapPtr ?h"
    using valid_not_fresh [OF v0] valid_not_fresh [OF v1] by simp_all
  have A5: "blob_bytes ?m5 ?sk0 = Some A"
    by (rule blob_bytes_frame [OF A _ _ _ nf0]) (simp_all add: nth_append)
  let ?st = "\<lparr> blob = ?cb, bs_write_cursor = 0 \<rparr>"
  let ?m6 = "?m5\<lparr> heap := heap m @ [(True, A @ replicate (length B) 0)] \<rparr>"
  let ?st1 = "?st\<lparr> bs_write_cursor := size_b ?sk0 \<rparr>"
  have ow1: "overwrite ?Z 0 A = A @ replicate (length B) 0"
    by (simp add: overwrite_def)
  have d1: "data (blob ?st) = HeapPtr ?h" by simp
  have hp1: "?h < length (heap ?m5)" by simp
  have hp2: "heap ?m5 ! ?h = (True, ?Z)" by simp
  have fits1: "unat (bs_write_cursor ?st) + unat (size_b ?sk0) \<le> unat (size_b (blob ?st))"
    using un lA by simp
  have zl: "unat (size_b (blob ?st)) = length ?Z" using un by simp
  have w1: "s2n_stuffer_write ?m5 ?st ?sk0 = Inr (?m6, ?st1)"
    using stuffer_write_block [OF d1 hp1 hp2 fits1 zl A5] by (simp add: ow1)
  have B6: "blob_bytes ?m6 ?sk1 = Some B"
    by (rule blob_bytes_frame [OF B _ _ _ nf1]) (simp_all add: nth_append)
  let ?m7 = "?m5\<lparr> heap := heap m @ [(True, A @ B)] \<rparr>"
  let ?st2 = "?st\<lparr> bs_write_cursor := size_b ?sk0 + size_b ?sk1 \<rparr>"
  have ow2: "overwrite (A @ replicate (length B) 0) (unat (size_b ?sk0)) B = A @ B"
    using lA by (simp add: overwrite_def)
  have d2: "data (blob ?st1) = HeapPtr ?h" by simp
  have hq1: "?h < length (heap ?m6)" by simp
  have hq2: "heap ?m6 ! ?h = (True, A @ replicate (length B) 0)" by simp
  have fits2: "unat (bs_write_cursor ?st1) + unat (size_b ?sk1) \<le> unat (size_b (blob ?st1))"
    using un lA lB by simp
  have zl2: "unat (size_b (blob ?st1)) = length (A @ replicate (length B) (0 :: u8))"
    using un by simp
  have w2: "s2n_stuffer_write ?m6 ?st1 (kem_shared_secret (conn ?m6)) = Inr (?m7, ?st2)"
    using stuffer_write_block [OF d2 hq1 hq2 fits2 zl2 B6] by (simp add: ow2)
  let ?m8 = "set_blob (release ?m7 (data ?sk1)) KemSharedSecret blob_zeroed"
  have kf: "s2n_kem_free ?m7 = Inr ?m8"
    by (simp add: s2n_kem_free_def s2n_free_def get_blob_def)
  have run: "hybrid_combine e m (LocalBlob j) i = Inr ?m8"
    using g0 al g5c g5i w1 w2 kf
    by (simp add: hybrid_combine_def s2n_stuffer_init_def GUARD_def)
  have hr: "?h < length (heap ?m7)" by simp
  note r = release_heap_other [OF hr nf1]
  have "local_blobs ?m8 = (local_blobs m)[j := ?cb]"
    using r by (simp add: set_blob_def)
  moreover have "length (heap ?m8) = Suc ?h" "heap ?m8 ! ?h = (True, A @ B)"
    using r by (simp_all add: set_blob_def)
  ultimately show ?thesis using run un by blast
qed

lemma hybrid_combine_fails:
  assumes i: "i < length (local_blobs m)" and j: "j < length (local_blobs m)" "j \<noteq> i"
    and v0: "blob_valid m (local_blobs m ! i)"
    and A: "blob_bytes m (local_blobs m ! i) = Some A"
    and B: "blob_bytes m (kem_shared_secret (conn m)) = Some B"
    and bad: "\<not> (alloc_ok e (length A + length B) \<and> length A + length B < 2 ^ 32)"
  shows "isl (hybrid_combine e m (LocalBlob j) i)"
proof -
  let ?sk0 = "local_blobs m ! i"
  let ?sk1 = "kem_shared_secret (conn m)"
  let ?n = "size_b ?sk0 + size_b ?sk1"
  let ?h = "length (heap m)"
  let ?cb = "\<lparr> data = HeapPtr ?h, size_b = ?n, allocated = ?n \<rparr>"
  have lA: "length A = unat (size_b ?sk0)" and lB: "length B = unat (size_b ?sk1)"
    using blob_bytes_length [OF A] blob_bytes_length [OF B] by simp_all
  have g0: "get_blob m (LocalBlob i) = Some ?sk0" using i by (simp add: get_blob_def)
  show ?thesis
  proof (cases "alloc_ok e (unat ?n)")
    case False
    then show ?thesis using g0 j
      by (simp add: hybrid_combine_def s2n_alloc_def get_blob_def GUARD_def)
  next
    case True
    have short: "unat ?n < length A + length B"
    proof (cases "length A + length B < 2 ^ 32")
      case True
      then have "unat ?n = length A + length B"
        unfolding lA lB by (rule unat_sum_sizes)
      with bad True \<open>alloc_ok e (unat ?n)\<close> show ?thesis by simp
    next
      case False
      moreover have "unat ?n < 2 ^ 32"
        using unsigned_less [of ?n, where 'a = nat] by simp
      ultimately show ?thesis by simp
    qed
    let ?Z = "replicate (unat ?n) (0 :: u8)"
    let ?m5 = "m\<lparr> heap := heap m @ [(True, ?Z)], local_blobs := (local_blobs m)[j := ?cb] \<rparr>"
    have al: "s2n_alloc e m (LocalBlob j) ?n = Inr ?m5"
      using j True by (simp add: s2n_alloc_def get_blob_def set_blob_def)
    have g5c: "get_blob ?m5 (LocalBlob j) = Some ?cb" using j by (simp add: get_blob_def)
    have g5i: "get_blob ?m5 (LocalBlob i) = Some ?sk0" using i j by (simp add: get_blob_def)
    let ?st = "\<lparr> blob = ?cb, bs_write_cursor = 0 \<rparr>"
    show ?thesis
    proof (cases "unat ?n < length A")
      case True
      then have "s2n_stuffer_write ?m5 ?st ?sk0 = Inl S2N_ERR_STUFFER_IS_FULL"
        by (simp add: s2n_stuffer_write_def lA)
      then show ?thesis using g0 al g5c g5i
        by (simp add: hybrid_combine_def s2n_stuffer_init_def GUARD_def)
    next
      case False
      have nf0: "data ?sk0 \<noteq> HeapPtr ?h" using valid_not_fresh [OF v0] by simp
      have A5: "blob_bytes ?m5 ?sk0 = Some A"
        by (rule blob_bytes_frame [OF A _ _ _ nf0]) (simp_all add: nth_append)
      have d1: "data (blob ?st) = HeapPtr ?h" by simp
      have hp1: "?h < length (heap ?m5)" by simp
      have hp2: "heap ?m5 ! ?h = (True, ?Z)" by simp
      have fits1: "unat (bs_write_cursor ?st) + unat (size_b ?sk0) \<le> unat (size_b (blob ?st))"
        using False lA by simp
      have zl: "unat (size_b (blob ?st)) = length ?Z" by simp
      note w1 = stuffer_write_block [OF d1 hp1 hp2 fits1 zl A5]
      let ?m6 = "?m5\<lparr> heap := (heap ?m5)[?h := (True, overwrite ?Z (unat (bs_write_cursor ?st)) A)] \<rparr>"
      let ?st1 = "?st\<lparr> bs_write_cursor := bs_write_cursor ?st + size_b ?sk0 \<rparr>"
      have "s2n_stuffer_write ?m6 ?st1 (kem_shared_secret (conn ?m6)) =
              Inl S2N_ERR_STUFFER_IS_FULL"
        using short by (simp add: s2n_stuffer_write_def lA lB)
      then show ?thesis using g0 al g5c g5i w1
        by (simp add: hybrid_combine_def s2n_stuffer_init_def GUARD_def)
    qed
  qed
qed

lemma cleanup_keeps_combined:
  assumes L: "local_blobs m8 = L[j := cb]" and i: "i < length L" and j: "j < i"
    and nf: "data (L ! i) \<noteq> HeapPtr h" and h: "h < length (heap m8)"
  shows "get_blob (hybrid_cleanup m8 i) (LocalBlob j) = Some cb"
    and "h < length (heap (hybrid_cleanup m8 i))"
    and "heap (hybrid_cleanup m8 i) ! h = heap m8 ! h"
proof -
  have gi: "get_blob m8 (LocalBlob i) = Some (L ! i)"
    using L i j by (simp add: get_blob_def)
  let ?m9 = "set_blob (release m8 (data (L ! i))) (LocalBlob i) blob_zeroed"
  have fr: "s2n_free m8 (LocalBlob i) = Inr ?m9"
    using gi by (simp add: s2n_free_def)
  note r = release_heap_other [OF h nf]
  have cl: "hybrid_cleanup m8 i = ?m9\<lparr> local_blobs := take i (local_blobs ?m9) \<rparr>"
    by (simp add: hybrid_cleanup_def fr Let_def)
  have lb: "local_blobs ?m9 = L[j := cb, i := blob_zeroed]"
    using r L by (simp add: set_blob_def)
  show "get_blob (hybrid_cleanup m8 i) (LocalBlob j) = Some cb"
    using i j by (simp add: cl lb get_blob_def)
  show "h < length (heap (hybrid_cleanup m8 i))"
    using r h by (simp add: cl set_blob_def)
  show "heap (hybrid_cleanup m8 i) ! h = heap m8 ! h"
    using r by (simp add: cl set_blob_def)
qed

text \<open>
  C3. Let \<open>A\<close> be the bytes of the component secret that the classical sub-method left
  in \<^verbatim>\<open>shared_key_0\<close> and \<open>B\<close> the bytes that the post-quantum sub-method left in
  the connection's \<open>kem_params.shared_secret\<close>, both valid blobs, and let the combined
  shared key be a blob of the caller. Whenever the hybrid combiner returns success, the
  combined shared key has size \<open>length A + length B\<close> and its bytes are \<open>A\<close> followed
  by \<open>B\<close>; and it does return success whenever the allocation of that many bytes
  succeeds and the sum fits the 32-bit size. The key exchange method, the cursor and
  the stuffer action are arbitrary, so this holds for the receive and for the send
  direction.
\<close>

theorem hybrid_combined_secret_is_concatenation:
  assumes sub: "hybrid_sub_operations m kex_method cursor stuffer_action = Inr m4"
    and i: "i = length (local_blobs m)" "i < length (local_blobs m4)"
    and j: "combined_shared_key = LocalBlob j" "j < i"
    and v0: "blob_valid m4 (local_blobs m4 ! i)"
    and v1: "blob_valid m4 (kem_shared_secret (conn m4))"
    and A: "blob_bytes m4 (local_blobs m4 ! i) = Some A"
    and B: "blob_bytes m4 (kem_shared_secret (conn m4)) = Some B"
  shows "(s2n_hybrid_client_action e m combined_shared_key kex_method cursor stuffer_action =
            Inr m' \<longrightarrow>
          (\<exists>c. get_blob m' combined_shared_key = Some c \<and>
               unat (size_b c) = length A + length B \<and>
               blob_bytes m' c = Some (A @ B)))
       \<and> (alloc_ok e (length A + length B) \<and> length A + length B < 2 ^ 32 \<longrightarrow>
          (\<exists>m''. s2n_hybrid_client_action e m combined_shared_key kex_method cursor
                    stuffer_action = Inr m''))"
proof (cases "alloc_ok e (length A + length B) \<and> length A + length B < 2 ^ 32")
  case False
  have jl: "j < length (local_blobs m4)" "j \<noteq> i" using i j by simp_all
  from hybrid_combine_fails [OF i(2) jl v0 A B False, of ]
  have "isl (hybrid_combine e m4 (LocalBlob j) i)" .
  then obtain err where "hybrid_combine e m4 (LocalBlob j) i = Inl err"
    by (cases "hybrid_combine e m4 (LocalBlob j) i") auto
  then have "s2n_hybrid_client_action e m combined_shared_key kex_method cursor stuffer_action =
               Inl err"
    using sub i(1) j(1) by (simp add: s2n_hybrid_client_action_def GUARD_def)
  with False show ?thesis by simp
next
  case True
  have jl: "j < length (local_blobs m4)" "j \<noteq> i" using i j by simp_all
  let ?h = "length (heap m4)"
  let ?n = "size_b (local_blobs m4 ! i) + size_b (kem_shared_secret (conn m4))"
  let ?cb = "\<lparr> data = HeapPtr ?h, size_b = ?n, allocated = ?n \<rparr>"
  from True hybrid_combine_ok [OF i(2) jl v0 v1 A B, of e] obtain m8 where
    run: "hybrid_combine e m4 (LocalBlob j) i = Inr m8" and
    L: "local_blobs m8 = (local_blobs m4)[j := ?cb]" and
    un: "unat ?n = length A + length B" and
    hl: "length (heap m8) = Suc ?h" and hv: "heap m8 ! ?h = (True, A @ B)"
    by blast
  let ?m' = "hybrid_cleanup m8 i"
  have act: "s2n_hybrid_client_action e m combined_shared_key kex_method cursor stuffer_action =
               Inr ?m'"
    using sub run i(1) j(1) by (simp add: s2n_hybrid_client_action_def GUARD_def)
  have h: "?h < length (heap m8)" using hl by simp
  note c = cleanup_keeps_combined [OF L i(2) j(2) valid_not_fresh [OF v0] h]
  have bytes: "blob_bytes ?m' ?cb = Some (A @ B)"
  proof (cases "?n = 0")
    case True
    with un have "A = []" "B = []" by simp_all
    with True show ?thesis by (simp add: blob_bytes_def)
  next
    case False
    then show ?thesis using c(2,3) hv un
      by (simp add: blob_bytes_def load_def region_def)
  qed
  have "\<exists>c. get_blob ?m' combined_shared_key = Some c \<and>
               unat (size_b c) = length A + length B \<and> blob_bytes ?m' c = Some (A @ B)"
    using c(1) un bytes j(1) by simp
  with act show ?thesis by auto
qed

theorem hybrid_combined_secret_is_concatenation_witness:
  "(\<exists>m' c. s2n_hybrid_client_key_recv env_hybrid mem_hybrid (LocalBlob 0) = Inr m' \<and>
      get_blob m' (LocalBlob 0) = Some c \<and> unat (size_b c) = 96 \<and>
      blob_bytes m' c = Some (replicate 32 0xA1 @ replicate 64 0xB2)) \<and>
   (\<exists>m' c. s2n_hybrid_client_key_send env_hybrid mem_hybrid (LocalBlob 0) = Inr m' \<and>
      get_blob m' (LocalBlob 0) = Some c \<and> unat (size_b c) = 96 \<and>
      blob_bytes m' c = Some (replicate 32 0xA1 @ replicate 64 0xB2))"
proof -
  have ok: "alloc_ok env_hybrid (length (replicate 32 (0xA1 :: u8)) + length (replicate 64 (0xB2 :: u8)))
            \<and> length (replicate 32 (0xA1 :: u8)) + length (replicate 64 (0xB2 :: u8)) < 2 ^ 32"
    by (simp add: env_hybrid_def env0_def)
  have i0: "1 = length (local_blobs mem_hybrid)"
    by (simp add: mem_hybrid_def mem0_def)
  have r1: "hybrid_sub_operations mem_hybrid (Some example_kex_method) ReadCursor
              (Some s2n_stuffer_raw_read) = Inr mem_hybrid_recv_secrets"
    by code_simp
  have r2: "1 < length (local_blobs mem_hybrid_recv_secrets)" by code_simp
  have r3: "blob_valid mem_hybrid_recv_secrets (local_blobs mem_hybrid_recv_secrets ! 1)"
    by code_simp
  have r4: "blob_valid mem_hybrid_recv_secrets (kem_shared_secret (conn mem_hybrid_recv_secrets))"
    by code_simp
  have r5: "blob_bytes mem_hybrid_recv_secrets (local_blobs mem_hybrid_recv_secrets ! 1) =
              Some (replicate 32 0xA1)"
    by code_simp
  have r6: "blob_bytes mem_hybrid_recv_secrets (kem_shared_secret (conn mem_hybrid_recv_secrets)) =
              Some (replicate 64 0xB2)"
    by code_simp
  note recv = hybrid_combined_secret_is_concatenation
          [where e = env_hybrid and combined_shared_key = "LocalBlob 0" and j = 0,
           OF r1 i0 r2 refl _ r3 r4 r5 r6]
  have s1: "hybrid_sub_operations mem_hybrid (Some example_kex_method) WriteCursor
              (Some s2n_stuffer_raw_write) = Inr mem_hybrid_send_secrets"
    by code_simp
  have s2: "1 < length (local_blobs mem_hybrid_send_secrets)" by code_simp
  have s3: "blob_valid mem_hybrid_send_secrets (local_blobs mem_hybrid_send_secrets ! 1)"
    by code_simp
  have s4: "blob_valid mem_hybrid_send_secrets (kem_shared_secret (conn mem_hybrid_send_secrets))"
    by code_simp
  have s5: "blob_bytes mem_hybrid_send_secrets (local_blobs mem_hybrid_send_secrets ! 1) =
              Some (replicate 32 0xA1)"
    by code_simp
  have s6: "blob_bytes mem_hybrid_send_secrets (kem_shared_secret (conn mem_hybrid_send_secrets)) =
              Some (replicate 64 0xB2)"
    by code_simp
  note send = hybrid_combined_secret_is_concatenation
          [where e = env_hybrid and combined_shared_key = "LocalBlob 0" and j = 0,
           OF s1 i0 s2 refl _ s3 s4 s5 s6]
  from recv ok obtain m1 where
    a1: "s2n_hybrid_client_action env_hybrid mem_hybrid (LocalBlob 0) (Some example_kex_method)
           ReadCursor (Some s2n_stuffer_raw_read) = Inr m1"
    by auto
  from send ok obtain m2 where
    a2: "s2n_hybrid_client_action env_hybrid mem_hybrid (LocalBlob 0) (Some example_kex_method)
           WriteCursor (Some s2n_stuffer_raw_write) = Inr m2"
    by auto
  from recv [of m1] a1 send [of m2] a2 show ?thesis
    by (simp add: s2n_hybrid_client_key_recv_def s2n_hybrid_client_key_send_def env_hybrid_def)
qed

subsection \<open>Erasing the shared secret\<close>











end
